theory Spec2Isabelle
  imports Complex_Main "HOL-Library.Word"
begin

section \<open>Machine types and errors\<close>

text \<open>
  The header \<^verbatim>\<open>Source/Dynamite/marian.h\<close> emulates the Marian API on top of the CNTK
  engine. C++ \<^verbatim>\<open>int\<close> is a 32-bit word read in two's complement, \<^verbatim>\<open>size_t\<close> a 64-bit
  word read unsigned. A Marian \<^verbatim>\<open>Shape\<close> is a vector of \<^verbatim>\<open>int\<close>, an engine
  \<^verbatim>\<open>NDShape\<close> a vector of \<^verbatim>\<open>size_t\<close>.
\<close>

type_synonym int32 = "32 word"
type_synonym size_t = "64 word"
type_synonym Shape = "int32 list"
type_synonym NDShape = "size_t list"

text \<open>
  \<^verbatim>\<open>CNTK::InvalidArgument\<close> and \<^verbatim>\<open>CNTK::LogicError\<close> throw; \<^verbatim>\<open>OutOfRange\<close> stands for the
  \<^verbatim>\<open>std::out_of_range\<close> of a checked container access, \<^verbatim>\<open>TypeMismatch\<close> for a
  dictionary value read at the wrong kind, and \<^verbatim>\<open>NullDereference\<close> for the crash of a
  read through an empty handle.
\<close>

datatype error =
  InvalidArgument string | LogicError string | OutOfRange | TypeMismatch | NullDereference

section \<open>Shape and axis mapping (namespace mappers, class ShapeProxy)\<close>

text \<open>
  \<^verbatim>\<open>ToCNTKAxis(x, axisIndex)\<close> reads only the rank of \<^verbatim>\<open>x\<close>. The statement
  \<^verbatim>\<open>axisIndex += rank\<close> adds in \<^verbatim>\<open>size_t\<close> and narrows the sum back to \<^verbatim>\<open>int\<close>; the test
  \<^verbatim>\<open>axisIndex >= rank\<close> compares in \<^verbatim>\<open>size_t\<close>. The result is the argument handed to
  \<^verbatim>\<open>CNTK::Axis\<close>.
\<close>

definition ToCNTKAxis :: "size_t \<Rightarrow> int32 \<Rightarrow> error + size_t" where
  "ToCNTKAxis rank axisIndex0 =
     (let axisIndex = (if axisIndex0 <s 0
                       then (ucast ((scast axisIndex0 :: size_t) + rank) :: int32)
                       else axisIndex0)
      in if axisIndex <s 0 \<or> (scast axisIndex :: size_t) \<ge> rank
         then Inl (InvalidArgument ''marian::ToCNTKAxis: axis out of range'')
         else Inr (rank - 1 - scast axisIndex))"

text \<open>The normalized axis of the specification, over the integers.\<close>

definition normalized_axis :: "int \<Rightarrow> int \<Rightarrow> int" where
  "normalized_axis r a = (if a < 0 then a + r else a)"

text \<open>
  \<^verbatim>\<open>ToNDShape\<close> builds the engine shape from the reverse iterators of the Marian shape;
  each \<^verbatim>\<open>int\<close> extent is converted to \<^verbatim>\<open>size_t\<close>.
\<close>

definition ToNDShape :: "Shape \<Rightarrow> NDShape" where
  "ToNDShape shape = rev (map scast shape)"

text \<open>
  Modelled from the spec: \<^verbatim>\<open>shape.h\<close> (class \<^verbatim>\<open>Shape\<close>) and \<^verbatim>\<open>CNTKLibrary.h\<close> (class
  \<^verbatim>\<open>NDShape\<close>) are not part of the sources. A Shape is an ordered sequence of extents:
  \<^verbatim>\<open>resize\<close> gives a fresh shape of the requested rank, \<^verbatim>\<open>set\<close> overwrites one extent,
  \<^verbatim>\<open>elements\<close> is the product of the extents; \<^verbatim>\<open>NDShape::TotalSize\<close> is the product of the
  engine extents and \<^verbatim>\<open>NDShape::Rank\<close> their number.
\<close>

definition Shape_resize :: "nat \<Rightarrow> Shape" where
  "Shape_resize n = replicate n 1"

definition Shape_set :: "Shape \<Rightarrow> nat \<Rightarrow> int32 \<Rightarrow> Shape" where
  "Shape_set shape i v = shape[i := v]"

definition TotalSize :: "NDShape \<Rightarrow> size_t" where
  "TotalSize viewShape = prod_list viewShape"

definition Rank :: "NDShape \<Rightarrow> size_t" where
  "Rank viewShape = of_nat (length viewShape)"

text \<open>
  \<^verbatim>\<open>ShapeProxy::operator Shape\<close>: the loop \<^verbatim>\<open>for (i = 0; i < rank; i++)
  shape.set(i, m_viewShape[rank - 1 - i])\<close>, each engine extent narrowed to \<^verbatim>\<open>int\<close>.
\<close>

function operator_Shape_loop :: "NDShape \<Rightarrow> nat \<Rightarrow> nat \<Rightarrow> Shape \<Rightarrow> Shape" where
  "operator_Shape_loop viewShape rank i shape =
     (if i < rank
      then operator_Shape_loop viewShape rank (i + 1)
             (Shape_set shape i (ucast (viewShape ! (rank - 1 - i))))
      else shape)"
  by pat_completeness auto
termination
  by (relation "measure (\<lambda>(viewShape, rank, i, shape). rank - i)") auto

definition operator_Shape :: "NDShape \<Rightarrow> Shape" where
  "operator_Shape viewShape =
     (let rank = length viewShape
      in operator_Shape_loop viewShape rank 0 (Shape_resize rank))"

section \<open>Floating-point scalars\<close>

text \<open>
  C++ \<^verbatim>\<open>float\<close> and \<^verbatim>\<open>double\<close> values: a finite value carries its exact real value, next
  to the two infinities and NaN, with the IEEE rules for the special values. Rounding
  and the sign of zero are not modelled; no statement below depends on them.
\<close>

datatype float = Fin real | PInf | NInf | NaN

type_synonym double = float

fun float_sub :: "float \<Rightarrow> float \<Rightarrow> float" where
  "float_sub (Fin x) (Fin y) = Fin (x - y)"
| "float_sub NaN b = NaN"
| "float_sub a NaN = NaN"
| "float_sub PInf PInf = NaN"
| "float_sub NInf NInf = NaN"
| "float_sub PInf b = PInf"
| "float_sub NInf b = NInf"
| "float_sub a PInf = NInf"
| "float_sub a NInf = PInf"

fun float_mul :: "float \<Rightarrow> float \<Rightarrow> float" where
  "float_mul (Fin x) (Fin y) = Fin (x * y)"
| "float_mul NaN b = NaN"
| "float_mul a NaN = NaN"
| "float_mul (Fin x) PInf = (if x = 0 then NaN else if 0 < x then PInf else NInf)"
| "float_mul (Fin x) NInf = (if x = 0 then NaN else if 0 < x then NInf else PInf)"
| "float_mul PInf (Fin y) = (if y = 0 then NaN else if 0 < y then PInf else NInf)"
| "float_mul NInf (Fin y) = (if y = 0 then NaN else if 0 < y then NInf else PInf)"
| "float_mul PInf PInf = PInf"
| "float_mul PInf NInf = NInf"
| "float_mul NInf PInf = NInf"
| "float_mul NInf NInf = PInf"

fun float_div :: "float \<Rightarrow> float \<Rightarrow> float" where
  "float_div (Fin x) (Fin y) =
     (if y \<noteq> 0 then Fin (x / y)
      else if x = 0 then NaN else if 0 < x then PInf else NInf)"
| "float_div NaN b = NaN"
| "float_div a NaN = NaN"
| "float_div (Fin x) PInf = Fin 0"
| "float_div (Fin x) NInf = Fin 0"
| "float_div PInf (Fin y) = (if 0 \<le> y then PInf else NInf)"
| "float_div NInf (Fin y) = (if 0 \<le> y then NInf else PInf)"
| "float_div PInf b = NaN"
| "float_div NInf b = NaN"

fun float_less :: "float \<Rightarrow> float \<Rightarrow> bool" where
  "float_less (Fin x) (Fin y) = (x < y)"
| "float_less NaN b = False"
| "float_less a NaN = False"
| "float_less a NInf = False"
| "float_less PInf b = False"
| "float_less NInf b = True"
| "float_less a PInf = True"

text \<open>The comparison \<^verbatim>\<open>==\<close>: NaN equals nothing.\<close>

definition float_eq :: "float \<Rightarrow> float \<Rightarrow> bool" where
  "float_eq a b = (a = b \<and> a \<noteq> NaN)"

definition float_of_int :: "int32 \<Rightarrow> float" where
  "float_of_int i = Fin (real_of_int (sint i))"

section \<open>Configuration dictionary (class Options over CNTK::Dictionary)\<close>

text \<open>
  Modelled from the spec: \<^verbatim>\<open>CNTK::Dictionary\<close>, \<^verbatim>\<open>CNTK::DictionaryValue\<close> and
  \<^verbatim>\<open>CNTK::NDArrayView\<close> (\<^verbatim>\<open>CNTKLibrary.h\<close>) are not part of the sources. A dictionary maps
  a string key to a value of a closed set of kinds; it is kept as an association list
  in which the first entry for a key is the one that counts. \<^verbatim>\<open>Contains\<close> is the
  existence check, \<^verbatim>\<open>Keys\<close> lists every key once, the constant \<^verbatim>\<open>operator[]\<close> fails on a
  missing key, the mutable \<^verbatim>\<open>operator[]\<close> creates a missing entry with the empty value,
  and \<^verbatim>\<open>Value<T>\<close> fails on a value of another kind. An \<^verbatim>\<open>NDArrayView\<close> is a tensor
  buffer: its engine shape and its elements.
\<close>

record NDArrayView =
  view_shape :: NDShape
  view_data :: "float list"

datatype DictionaryValue =
    DV_None
  | DV_Bool bool
  | DV_Int int32
  | DV_SizeT size_t
  | DV_Float float
  | DV_Double double
  | DV_String string
  | DV_Vector "DictionaryValue list"
  | DV_NDArrayView NDArrayView

type_synonym Dictionary = "(string \<times> DictionaryValue) list"

definition Contains :: "Dictionary \<Rightarrow> string \<Rightarrow> bool" where
  "Contains d key = (map_of d key \<noteq> None)"

definition Keys :: "Dictionary \<Rightarrow> string list" where
  "Keys d = remdups (map fst d)"

definition Dictionary_at :: "Dictionary \<Rightarrow> string \<Rightarrow> error + DictionaryValue" where
  "Dictionary_at d key = (case map_of d key of None \<Rightarrow> Inl OutOfRange | Some v \<Rightarrow> Inr v)"

definition Dictionary_read :: "Dictionary \<Rightarrow> string \<Rightarrow> DictionaryValue \<times> Dictionary" where
  "Dictionary_read d key =
     (case map_of d key of
        Some v \<Rightarrow> (v, d)
      | None \<Rightarrow> (DV_None, d @ [(key, DV_None)]))"

fun Dictionary_store :: "Dictionary \<Rightarrow> string \<Rightarrow> DictionaryValue \<Rightarrow> Dictionary" where
  "Dictionary_store [] key v = [(key, v)]"
| "Dictionary_store ((k, w) # d) key v =
     (if k = key then (k, v) # d else (k, w) # Dictionary_store d key v)"



definition Value_NDArrayView :: "DictionaryValue \<Rightarrow> error + NDArrayView" where
  "Value_NDArrayView v = (case v of DV_NDArrayView a \<Rightarrow> Inr a | _ \<Rightarrow> Inl TypeMismatch)"

text \<open>Sequencing of fallible steps: the first error ends the computation.\<close>

definition bind :: "error + 'a \<Rightarrow> ('a \<Rightarrow> error + 'b) \<Rightarrow> error + 'b" where
  "bind m f = (case m of Inl e \<Rightarrow> Inl e | Inr x \<Rightarrow> f x)"



text \<open>
  \<^verbatim>\<open>Options::merge(other)\<close>. Option sets are held by shared pointers, so the store
  maps each pointer to its dictionary and \<^verbatim>\<open>this\<close> and \<^verbatim>\<open>other\<close> may be the same
  pointer. The loop runs over the keys of \<^verbatim>\<open>other\<close> as they are when it starts; the
  body \<^verbatim>\<open>Base::operator[](key) = other->operator[](key)\<close> reads \<^verbatim>\<open>other\<close> through the
  mutable \<^verbatim>\<open>operator[]\<close> and stores into \<^verbatim>\<open>this\<close>.
\<close>

type_synonym Options_store = "nat \<Rightarrow> Dictionary"

fun merge_loop :: "Options_store \<Rightarrow> nat \<Rightarrow> nat \<Rightarrow> string list \<Rightarrow> Options_store" where
  "merge_loop h this other [] = h"
| "merge_loop h this other (key # keys) =
     (if \<not> Contains (h this) key
      then (let (v, d) = Dictionary_read (h other) key;
                h1 = h(other := d);
                h2 = h1(this := Dictionary_store (h1 this) key v)
            in merge_loop h2 this other keys)
      else merge_loop h this other keys)"

definition merge :: "Options_store \<Rightarrow> nat \<Rightarrow> nat \<Rightarrow> Options_store" where
  "merge h this other = merge_loop h this other (Keys (h other))"

text \<open>The example of the specification: \<open>A = {lr: 0.1}\<close> and \<open>B = {lr: 0.2, seed: 42}\<close>.\<close>

definition example_A :: Dictionary where
  "example_A = [(''lr'', DV_Double (Fin (1/10)))]"

definition example_B :: Dictionary where
  "example_B = [(''lr'', DV_Double (Fin (2/10))), (''seed'', DV_Int 42)]"

definition example_store :: Options_store where
  "example_store = (\<lambda>p. if p = 0 then example_A else if p = 1 then example_B else [])"

section \<open>Parameter graph (class ExpressionGraph)\<close>

text \<open>
  Modelled from the spec: \<^verbatim>\<open>CNTK::Parameter\<close> (\<^verbatim>\<open>CNTKLibrary.h\<close>) is not part of the
  sources. A parameter is an ownership-shared handle to a trainable tensor of the
  engine: \<^verbatim>\<open>uid\<close> is the identity of the allocation, the shape is fixed when the tensor
  is created, and the engine heap holds the current value of every allocation (the
  tensor with handle \<open>i\<close> is the \<open>i\<close>-th entry). Creating a parameter appends one
  tensor to the heap, so its handle is new.
\<close>

datatype Parameter = Parameter (uid: nat) (Shape: NDShape)

type_synonym heap = "NDArrayView list"

definition new_Parameter :: "heap \<Rightarrow> NDArrayView \<Rightarrow> Parameter \<times> heap" where
  "new_Parameter hp v = (Parameter (length hp) (view_shape v), hp @ [v])"

text \<open>
  An initializer is a dictionary (\<^verbatim>\<open>CNTK::ParameterInitializer\<close>). \<^verbatim>\<open>inits::from_vector\<close>
  wraps a host buffer of \<open>n\<close> values as the rank-1 view \<^verbatim>\<open>{n}\<close> under the key
  \<^verbatim>\<open>from_vector\<close>; \<^verbatim>\<open>inits::zeros\<close> is the engine's constant-fill descriptor.
\<close>

type_synonym ParameterInitializer = Dictionary

definition from_vector :: "float list \<Rightarrow> ParameterInitializer" where
  "from_vector inputData =
     [(''from_vector'',
       DV_NDArrayView \<lparr>view_shape = [of_nat (length inputData)], view_data = inputData\<rparr>)]"

definition ConstantInitializer :: "double \<Rightarrow> ParameterInitializer" where
  "ConstantInitializer v = [(''initializerType'', DV_String ''constant''), (''value'', DV_Double v)]"

definition zeros :: ParameterInitializer where
  "zeros = ConstantInitializer (Fin 0)"

text \<open>
  Expressions are handles on nodes of the engine's graph. The constructors are the
  engine operations that the header calls (the debug names given to some nodes are left
  out), \<^verbatim>\<open>NullVariable\<close> is the empty \<^verbatim>\<open>Expr()\<close>, and \<^verbatim>\<open>Input\<close> stands for any other leaf. An
  axis argument is the number handed to \<^verbatim>\<open>CNTK::Axis\<close>.
\<close>

datatype Expr =
    NullVariable
  | Input nat
  | ParameterVar Parameter
  | ScalarConstant float
  | Constant NDArrayView bool
  | Negate Expr
  | Plus Expr Expr
  | Minus Expr Expr
  | ElementTimes Expr Expr
  | ElementDivide Expr Expr
  | Log Expr
  | Exp Expr
  | ReduceSum Expr size_t
  | ReduceMean Expr size_t
  | Reshape Expr NDShape
  | OneHotOp Expr size_t bool size_t
  | CrossEntropyWithSoftmax Expr Expr size_t
  | LogSoftmax Expr size_t
  | Alias Expr

type_synonym NDArrayViewPtr = "NDArrayView option"

record ExpressionGraph =
  m_allParametersMap :: "string \<rightharpoonup> Parameter"
  m_allParameters :: "Parameter list"
  m_inferenceOnly :: bool
  m_allGradients :: "Parameter \<rightharpoonup> NDArrayViewPtr"

definition ExpressionGraph_new :: ExpressionGraph where
  "ExpressionGraph_new =
     \<lparr>m_allParametersMap = Map.empty, m_allParameters = [], m_inferenceOnly = False,
      m_allGradients = Map.empty\<rparr>"

text \<open>\<^verbatim>\<open>std::map::insert\<close> keeps an entry that is already there.\<close>

definition map_insert :: "('k \<rightharpoonup> 'v) \<Rightarrow> 'k \<Rightarrow> 'v \<Rightarrow> ('k \<rightharpoonup> 'v)" where
  "map_insert m k v = (case m k of None \<Rightarrow> m(k \<mapsto> v) | Some w \<Rightarrow> m)"

text \<open>
  The three statements that both branches of case 1 of \<^verbatim>\<open>param\<close> run after creating
  the parameter \<open>p\<close>: insert into the name table, append to the parameter list, and set
  the gradient entry to \<^verbatim>\<open>nullptr\<close>.
\<close>

definition register_parameter :: "ExpressionGraph \<Rightarrow> string \<Rightarrow> Parameter \<Rightarrow> ExpressionGraph" where
  "register_parameter g name p =
     g\<lparr>m_allParametersMap := map_insert (m_allParametersMap g) name p,
       m_allParameters := m_allParameters g @ [p],
       m_allGradients := (m_allGradients g)(p \<mapsto> None)\<rparr>"

text \<open>
  \<^verbatim>\<open>ExpressionGraph::param(name, shape, init, fixed)\<close> on the engine heap and the graph.
  \<open>fill\<close> is the engine's own initialisation of a fresh tensor from an initializer
  (\<^verbatim>\<open>CNTK::Parameter(viewShape, DataType::Float, init, device, name)\<close>), a parameter of the
  model. The name of the parameter in the second error message is left out.
\<close>

definition shape_mismatch :: error where
  "shape_mismatch =
     InvalidArgument
       ''marian::param: Requested shape for existing parameter does not match original shape''"

definition param ::
  "(ParameterInitializer \<Rightarrow> NDShape \<Rightarrow> float list) \<Rightarrow> heap \<times> ExpressionGraph \<Rightarrow>
   string \<Rightarrow> Shape \<Rightarrow> ParameterInitializer \<Rightarrow> bool \<Rightarrow> error + (Expr \<times> heap \<times> ExpressionGraph)"
where
  "param fill st name shape init fixed =
     (let hp = fst st; g = snd st; viewShape = ToNDShape shape
      in case m_allParametersMap g name of
           None \<Rightarrow>
             if Contains init ''from_vector''
             then bind (bind (Dictionary_at init ''from_vector'') Value_NDArrayView)
                    (\<lambda>initData.
                       if TotalSize (view_shape initData) \<noteq> TotalSize viewShape
                       then Inl (InvalidArgument
                                  ''marian::constant: vector size does not match viewShape'')
                       else (let initVal = \<lparr>view_shape = viewShape,
                                              view_data = view_data initData\<rparr>;
                                 (p, hp') = new_Parameter hp initVal
                             in Inr (ParameterVar p, hp', register_parameter g name p)))
             else (let (p, hp') = new_Parameter hp
                                    \<lparr>view_shape = viewShape, view_data = fill init viewShape\<rparr>
                   in Inr (ParameterVar p, hp', register_parameter g name p))
         | Some p \<Rightarrow>
             if Shape p \<noteq> viewShape
             then Inl shape_mismatch
             else Inr (ParameterVar p, hp, g))"

text \<open>
  An initializer fits a shape unless it carries a \<^verbatim>\<open>from_vector\<close> buffer whose element
  count differs from that of the shape (or a \<^verbatim>\<open>from_vector\<close> entry that is no buffer).
\<close>

definition initializer_fits :: "ParameterInitializer \<Rightarrow> Shape \<Rightarrow> bool" where
  "initializer_fits init shape =
     (case map_of init ''from_vector'' of
        None \<Rightarrow> True
      | Some (DV_NDArrayView a) \<Rightarrow> TotalSize (view_shape a) = TotalSize (ToNDShape shape)
      | Some other \<Rightarrow> False)"

text \<open>An engine that fills a fresh tensor with zeros, to run examples.\<close>

definition zero_fill :: "ParameterInitializer \<Rightarrow> NDShape \<Rightarrow> float list" where
  "zero_fill init viewShape = replicate (unat (TotalSize viewShape)) (Fin 0)"

text \<open>
  \<^verbatim>\<open>ExpressionGraph::backprop(root)\<close> hands the gradient map to the engine's
  \<^verbatim>\<open>Backward\<close>, which fills it: the new gradient values are the engine's, given here as
  an argument.
\<close>

definition backprop :: "ExpressionGraph \<Rightarrow> (Parameter \<rightharpoonup> NDArrayViewPtr) \<Rightarrow> ExpressionGraph" where
  "backprop g filled = g\<lparr>m_allGradients := filled\<rparr>"

text \<open>
  What can happen to the heap and a graph after a call of \<^verbatim>\<open>param\<close>: further calls of \<^verbatim>\<open>param\<close>
  that return, backward passes, and changes of the stored tensor values (optimizer
  steps), in any order.
\<close>

inductive later ::
  "(ParameterInitializer \<Rightarrow> NDShape \<Rightarrow> float list) \<Rightarrow> heap \<times> ExpressionGraph \<Rightarrow>
   heap \<times> ExpressionGraph \<Rightarrow> bool"
  for fill :: "ParameterInitializer \<Rightarrow> NDShape \<Rightarrow> float list"
    and st :: "heap \<times> ExpressionGraph"
where
  later_now: "later fill st st"
| later_param:
    "later fill st st1 \<Longrightarrow> param fill st1 name shape init fixed = Inr (e, hp2, g2) \<Longrightarrow>
     later fill st (hp2, g2)"
| later_backprop:
    "later fill st (hp1, g1) \<Longrightarrow> later fill st (hp1, backprop g1 filled)"
| later_values:
    "later fill st (hp1, g1) \<Longrightarrow> length hp2 = length hp1 \<Longrightarrow> later fill st (hp2, g1)"

section \<open>Optimizer wrapper (class OptimizerWrapper)\<close>

text \<open>
  Modelled from the spec: the engine's learners (\<^verbatim>\<open>CNTK::SGDLearner\<close>,
  \<^verbatim>\<open>CNTK::AdamLearner\<close>, \<^verbatim>\<open>Learner::Update\<close>) are not part of the sources. A learner is
  bound to the parameter list it was constructed with; one \<^verbatim>\<open>Update\<close> applies one
  gradient step to each of these parameters, using the gradient map it is given. The
  update mathematics is the opaque service \<open>step\<close>: from the learner, the current
  value of a parameter and its entry of the gradient map to the new value.
\<close>

datatype AlgorithmType = Sgd | Adam

record Learner =
  learner_algorithm :: AlgorithmType
  learner_eta :: float
  learner_parameters :: "Parameter list"

type_synonym step_service = "Learner \<Rightarrow> NDArrayView \<Rightarrow> NDArrayViewPtr option \<Rightarrow> NDArrayView"

definition SGDLearner :: "Parameter list \<Rightarrow> float \<Rightarrow> Learner" where
  "SGDLearner parameters eta =
     \<lparr>learner_algorithm = Sgd, learner_eta = eta, learner_parameters = parameters\<rparr>"

definition AdamLearner :: "Parameter list \<Rightarrow> float \<Rightarrow> Learner" where
  "AdamLearner parameters eta =
     \<lparr>learner_algorithm = Adam, learner_eta = eta, learner_parameters = parameters\<rparr>"

fun Learner_Update_loop ::
  "step_service \<Rightarrow> Learner \<Rightarrow> (Parameter \<rightharpoonup> NDArrayViewPtr) \<Rightarrow> Parameter list \<Rightarrow> heap \<Rightarrow> heap"
where
  "Learner_Update_loop step l gradientValues [] hp = hp"
| "Learner_Update_loop step l gradientValues (p # ps) hp =
     Learner_Update_loop step l gradientValues ps
       (hp[uid p := step l (hp ! uid p) (gradientValues p)])"

definition Learner_Update ::
  "step_service \<Rightarrow> Learner \<Rightarrow> (Parameter \<rightharpoonup> NDArrayViewPtr) \<Rightarrow> heap \<Rightarrow> heap"
where
  "Learner_Update step l gradientValues hp =
     Learner_Update_loop step l gradientValues (learner_parameters l) hp"

text \<open>
  The wrapper holds the recipe \<^verbatim>\<open>m_LazyCreateLearner\<close>, a closure over \<^verbatim>\<open>eta\<close> chosen
  by the algorithm, and the learner \<^verbatim>\<open>m_learner\<close>, empty until the first \<^verbatim>\<open>update\<close>.
\<close>

record OptimizerWrapper =
  m_LazyCreateLearner :: "ExpressionGraph \<Rightarrow> Learner"
  m_learner :: "Learner option"

definition OptimizerWrapper_new :: "float \<Rightarrow> AlgorithmType \<Rightarrow> OptimizerWrapper" where
  "OptimizerWrapper_new eta algorithmType =
     \<lparr>m_LazyCreateLearner =
        (case algorithmType of
           Sgd \<Rightarrow> (\<lambda>graph. SGDLearner (m_allParameters graph) eta)
         | Adam \<Rightarrow> (\<lambda>graph. AdamLearner (m_allParameters graph) eta)),
      m_learner = None\<rparr>"

definition update ::
  "step_service \<Rightarrow> OptimizerWrapper \<times> heap \<Rightarrow> ExpressionGraph \<Rightarrow> OptimizerWrapper \<times> heap"
where
  "update step st graph =
     (let opt = fst st; hp = snd st;
          learner = (case m_learner opt of
                       None \<Rightarrow> m_LazyCreateLearner opt graph
                     | Some l \<Rightarrow> l)
      in (opt\<lparr>m_learner := Some learner\<rparr>,
          Learner_Update step learner (m_allGradients graph) hp))"

text \<open>A run of \<^verbatim>\<open>update\<close> calls, each on the graph as it is at that call.\<close>

fun updates ::
  "step_service \<Rightarrow> OptimizerWrapper \<times> heap \<Rightarrow> ExpressionGraph list \<Rightarrow> OptimizerWrapper \<times> heap"
where
  "updates step st [] = st"
| "updates step st (graph # graphs) = updates step (update step st graph) graphs"

text \<open>
  The handles of the registered parameters are allocated on the heap: true of the empty
  graph and kept by every call of \<^verbatim>\<open>param\<close>.
\<close>

definition allocated :: "heap \<Rightarrow> ExpressionGraph \<Rightarrow> bool" where
  "allocated hp g = list_all (\<lambda>p. uid p < length hp) (m_allParameters g)"

text \<open>
  To run examples: a step service that subtracts the learning rate from every element,
  and the heap and graph after \<^verbatim>\<open>param("W1", {2,2}, zeros)\<close> on the empty graph.
\<close>

definition example_step :: step_service where
  "example_step l v grad =
     v\<lparr>view_data := map (\<lambda>x. float_sub x (learner_eta l)) (view_data v)\<rparr>"

definition example_W1 :: "heap \<times> ExpressionGraph" where
  "example_W1 =
     (case param zero_fill ([], ExpressionGraph_new) ''W1'' [2, 2] zeros False of
        Inr (e, st) \<Rightarrow> st
      | Inl err \<Rightarrow> ([], ExpressionGraph_new))"

section \<open>Operators on expressions\<close>

text \<open>
  The shape of an expression is the engine's to infer (\<^verbatim>\<open>CNTKLibrary.h\<close> is not part
  of the sources): the functions that read a shape take the engine's shape inference
  \<open>S\<close> as a parameter. Reading the shape of the empty \<^verbatim>\<open>Expr()\<close> is a failure of its own.
\<close>

type_synonym shape_inference = "Expr \<Rightarrow> NDShape"

definition Shape_of :: "shape_inference \<Rightarrow> Expr \<Rightarrow> error + NDShape" where
  "Shape_of S x =
     (if x = NullVariable then Inl NullDereference else Inr (S x))"

text \<open>
  Modelled from the spec: \<^verbatim>\<open>NDShape::operator[]\<close> (\<^verbatim>\<open>CNTKLibrary.h\<close>) is a checked read of one
  extent.
\<close>

definition NDShape_at :: "NDShape \<Rightarrow> size_t \<Rightarrow> error + size_t" where
  "NDShape_at viewShape i =
     (if unat i < length viewShape then Inr (viewShape ! unat i) else Inl OutOfRange)"


definition ShapeProxy_elements :: "NDShape \<Rightarrow> int32" where
  "ShapeProxy_elements m_viewShape = ucast (TotalSize m_viewShape)"

text \<open>
  The scalar operand of an overloaded operator is an \<^verbatim>\<open>int\<close>, a \<^verbatim>\<open>float\<close> or a
  \<^verbatim>\<open>double\<close>; the three overloads of each operator have the same body.
  \<^verbatim>\<open>InternalOps::Scalar\<close> casts the number to \<^verbatim>\<open>float\<close> and makes a constant node.
\<close>

datatype Number = of_int32 int32 | of_float float | of_double double

definition Number_is :: "Number \<Rightarrow> int32 \<Rightarrow> bool" where
  "Number_is a k =
     (case a of
        of_int32 i \<Rightarrow> i = k
      | of_float f \<Rightarrow> float_eq f (float_of_int k)
      | of_double d \<Rightarrow> float_eq d (float_of_int k))"

definition to_float :: "Number \<Rightarrow> float" where
  "to_float a = (case a of of_int32 i \<Rightarrow> float_of_int i | of_float f \<Rightarrow> f | of_double d \<Rightarrow> d)"

definition Scalar :: "Number \<Rightarrow> Expr" where
  "Scalar x = ScalarConstant (to_float x)"

text \<open>The operators on two expressions, and the unary minus.\<close>

definition operator_neg :: "Expr \<Rightarrow> Expr" where
  "operator_neg a = Negate a"

definition operator_plus :: "Expr \<Rightarrow> Expr \<Rightarrow> Expr" where
  "operator_plus a b = Plus a b"

definition operator_minus :: "Expr \<Rightarrow> Expr \<Rightarrow> Expr" where
  "operator_minus a b = Minus a b"

definition operator_times :: "Expr \<Rightarrow> Expr \<Rightarrow> Expr" where
  "operator_times a b = ElementTimes a b"

definition operator_div :: "Expr \<Rightarrow> Expr \<Rightarrow> Expr" where
  "operator_div a b = ElementDivide a b"

text \<open>
  The operators with a scalar on the left (\<open>_SE\<close>) or on the right (\<open>_ES\<close>), in the order
  of the header.
\<close>

definition operator_plus_SE :: "Number \<Rightarrow> Expr \<Rightarrow> Expr" where
  "operator_plus_SE a b = (if Number_is a 0 then b else operator_plus (Scalar a) b)"

definition operator_plus_ES :: "Expr \<Rightarrow> Number \<Rightarrow> Expr" where
  "operator_plus_ES a b = (if Number_is b 0 then a else operator_plus a (Scalar b))"

definition operator_minus_SE :: "Number \<Rightarrow> Expr \<Rightarrow> Expr" where
  "operator_minus_SE a b =
     (if Number_is a 0 then operator_neg b else operator_minus (Scalar a) b)"

definition operator_minus_ES :: "Expr \<Rightarrow> Number \<Rightarrow> Expr" where
  "operator_minus_ES a b = (if Number_is b 0 then a else operator_minus a (Scalar b))"

definition operator_times_SE :: "Number \<Rightarrow> Expr \<Rightarrow> Expr" where
  "operator_times_SE a b = (if Number_is a 1 then b else operator_times (Scalar a) b)"

definition operator_times_ES :: "Expr \<Rightarrow> Number \<Rightarrow> Expr" where
  "operator_times_ES a b = (if Number_is b 1 then a else operator_times a (Scalar b))"

definition operator_div_SE :: "Number \<Rightarrow> Expr \<Rightarrow> Expr" where
  "operator_div_SE a b = operator_div (Scalar a) b"

definition operator_div_ES :: "Expr \<Rightarrow> Number \<Rightarrow> Expr" where
  "operator_div_ES a b = (if Number_is b 1 then a else operator_div a (Scalar b))"

text \<open>The number of engine nodes an expression is made of.\<close>

fun nodes :: "Expr \<Rightarrow> nat" where
  "nodes NullVariable = 0"
| "nodes (Input n) = 1"
| "nodes (ParameterVar p) = 1"
| "nodes (ScalarConstant c) = 1"
| "nodes (Constant v isVolatile) = 1"
| "nodes (Negate a) = 1 + nodes a"
| "nodes (Plus a b) = 1 + nodes a + nodes b"
| "nodes (Minus a b) = 1 + nodes a + nodes b"
| "nodes (ElementTimes a b) = 1 + nodes a + nodes b"
| "nodes (ElementDivide a b) = 1 + nodes a + nodes b"
| "nodes (Log a) = 1 + nodes a"
| "nodes (Exp a) = 1 + nodes a"
| "nodes (ReduceSum a axis) = 1 + nodes a"
| "nodes (ReduceMean a axis) = 1 + nodes a"
| "nodes (Reshape a viewShape) = 1 + nodes a"
| "nodes (OneHotOp a numClasses outputSparse axis) = 1 + nodes a"
| "nodes (CrossEntropyWithSoftmax a b axis) = 1 + nodes a + nodes b"
| "nodes (LogSoftmax a axis) = 1 + nodes a"
| "nodes (Alias a) = 1 + nodes a"

text \<open>
  Reductions, element-wise functions and reshaping, as the header maps them (\<^verbatim>\<open>sum\<close>,
  \<^verbatim>\<open>log\<close> and \<^verbatim>\<open>exp\<close> with a suffix, next to the functions of the logic).
\<close>

definition sum_Expr :: "shape_inference \<Rightarrow> Expr \<Rightarrow> int32 \<Rightarrow> error + Expr" where
  "sum_Expr S a ax =
     bind (Shape_of S a) (\<lambda>viewShape.
     bind (ToCNTKAxis (Rank viewShape) ax) (\<lambda>axis. Inr (ReduceSum a axis)))"

definition mean :: "shape_inference \<Rightarrow> Expr \<Rightarrow> int32 \<Rightarrow> error + Expr" where
  "mean S a ax =
     bind (Shape_of S a) (\<lambda>viewShape.
     bind (ToCNTKAxis (Rank viewShape) ax) (\<lambda>axis. Inr (ReduceMean a axis)))"


definition exp_Expr :: "Expr \<Rightarrow> Expr" where
  "exp_Expr a = Exp a"



definition logsoftmax :: "Expr \<Rightarrow> Expr" where
  "logsoftmax x = LogSoftmax x 0"

definition cross_entropy :: "shape_inference \<Rightarrow> Expr \<Rightarrow> Expr \<Rightarrow> error + Expr" where
  "cross_entropy S o_logits y =
     bind (Shape_of S o_logits) (\<lambda>viewShape.
     bind (NDShape_at viewShape 0) (\<lambda>numClasses.
       Inr (Alias (CrossEntropyWithSoftmax o_logits (OneHotOp y numClasses True 0) 0))))"

section \<open>Dropout\<close>

text \<open>
  The C library's generator is outside the header: \<^verbatim>\<open>srand\<close> sets its state from a seed,
  \<^verbatim>\<open>rand\<close> steps the state and returns a number from \<open>0\<close> to \<^verbatim>\<open>RAND_MAX\<close>. It is a
  parameter of the model.
\<close>

record 'g libc =
  RAND_MAX :: nat
  srand :: "int32 \<Rightarrow> 'g"
  rand :: "'g \<Rightarrow> nat \<times> 'g"

text \<open>
  \<^verbatim>\<open>InternalOps::DropoutMask(size_t n, float dropProb)\<close>. The state is the function's
  \<^verbatim>\<open>static int seed\<close>, which starts at 1, and the state of the generator. The loop
  (\<^verbatim>\<open>CNTK::Transform\<close> over \<^verbatim>\<open>NumericRangeSpan<size_t>(n)\<close>) draws one number for
  each of the \<open>n\<close> elements in turn.
\<close>

definition seed_initial :: int32 where
  "seed_initial = 1"

fun DropoutMask_loop ::
  "'g libc \<Rightarrow> float \<Rightarrow> float \<Rightarrow> nat \<Rightarrow> 'g \<Rightarrow> float list \<times> 'g" where
  "DropoutMask_loop lib RAND_MAXxP invKeepProb 0 gen = ([], gen)"
| "DropoutMask_loop lib RAND_MAXxP invKeepProb (Suc n) gen =
     (let (r, gen1) = rand lib gen;
          element = (if float_less (Fin (real r)) RAND_MAXxP then invKeepProb
                     else float_of_int 0);
          (rest, gen2) = DropoutMask_loop lib RAND_MAXxP invKeepProb n gen1
      in (element # rest, gen2))"

definition DropoutMask ::
  "'g libc \<Rightarrow> int32 \<times> 'g \<Rightarrow> size_t \<Rightarrow> float \<Rightarrow> float list \<times> (int32 \<times> 'g)" where
  "DropoutMask lib st n dropProb =
     (let seed = fst st;
          gen0 = srand lib seed;
          keepProb = float_sub (float_of_int 1) dropProb;
          RAND_MAXxP = float_mul keepProb (Fin (real (RAND_MAX lib)));
          invKeepProb = float_div (float_of_int 1) keepProb;
          (msk, gen1) = DropoutMask_loop lib RAND_MAXxP invKeepProb (unat n) gen0
      in (msk, (seed + 1, gen1)))"

text \<open>
  \<^verbatim>\<open>InternalOps::Constant(viewShape, init, isVolatile)\<close> and
  \<^verbatim>\<open>InternalOps::DropoutMask(float prob, const ShapeProxy& shape)\<close>; the static state
  survives a failure of \<^verbatim>\<open>Constant\<close>.
\<close>

definition InternalOps_Constant :: "NDShape \<Rightarrow> ParameterInitializer \<Rightarrow> bool \<Rightarrow> error + Expr" where
  "InternalOps_Constant viewShape init isVolatile =
     (if Contains init ''from_vector''
      then bind (bind (Dictionary_at init ''from_vector'') Value_NDArrayView)
             (\<lambda>initData.
                if TotalSize (view_shape initData) \<noteq> TotalSize viewShape
                then Inl (InvalidArgument
                           ''marian::constant: vector size does not match viewShape'')
                else Inr (Constant \<lparr>view_shape = viewShape, view_data = view_data initData\<rparr>
                            isVolatile))
      else Inl (InvalidArgument ''BUGBUG: no public Constant() from ParameterInitializer?''))"

definition DropoutMask_ShapeProxy ::
  "'g libc \<Rightarrow> int32 \<times> 'g \<Rightarrow> float \<Rightarrow> NDShape \<Rightarrow> (error + Expr) \<times> (int32 \<times> 'g)" where
  "DropoutMask_ShapeProxy lib st prob viewShape =
     (let (msk, st1) = DropoutMask lib st (scast (ShapeProxy_elements viewShape)) prob
      in (InternalOps_Constant viewShape (from_vector msk) False, st1))"

text \<open>\<^verbatim>\<open>dropout(x, mask)\<close> and \<^verbatim>\<open>dropout(x, dropProb)\<close>.\<close>

definition dropout_mask :: "Expr \<Rightarrow> Expr \<Rightarrow> Expr" where
  "dropout_mask x msk = operator_times x msk"

definition dropout ::
  "'g libc \<Rightarrow> shape_inference \<Rightarrow> int32 \<times> 'g \<Rightarrow> Expr \<Rightarrow> float \<Rightarrow> (error + Expr) \<times> (int32 \<times> 'g)"
where
  "dropout lib S st x dropProb =
     (case Shape_of S x of
        Inl e \<Rightarrow> (Inl e, st)
      | Inr viewShape \<Rightarrow>
          (let (msk, st1) = DropoutMask_ShapeProxy lib st dropProb viewShape
           in (bind msk (\<lambda>m. Inr (dropout_mask x m)), st1)))"

text \<open>
  A run of \<^verbatim>\<open>DropoutMask\<close> calls. Between two calls other code may use the generator:
  each call comes with what that code does to the generator state before the call.
\<close>

fun DropoutMask_run ::
  "'g libc \<Rightarrow> int32 \<times> 'g \<Rightarrow> (('g \<Rightarrow> 'g) \<times> size_t \<times> float) list \<Rightarrow> float list list" where
  "DropoutMask_run lib st [] = []"
| "DropoutMask_run lib st ((other, n, dropProb) # calls) =
     (let (msk, st1) = DropoutMask lib (fst st, other (snd st)) n dropProb
      in msk # DropoutMask_run lib st1 calls)"

text \<open>
  The generator of the Microsoft C runtime, an instance of the parameter: the state is
  a 32-bit word, \<^verbatim>\<open>srand\<close> stores the seed, and \<^verbatim>\<open>rand\<close> returns bits 16 to 30 of
  \<open>state * 214013 + 2531011\<close>; \<^verbatim>\<open>RAND_MAX\<close> is \<open>32767\<close>.
\<close>

definition msvc_rand :: "32 word \<Rightarrow> nat \<times> 32 word" where
  "msvc_rand holdrand =
     (let next = holdrand * 214013 + 2531011
      in (unat (take_bit 15 (drop_bit 16 next)), next))"

definition msvc :: "(32 word) libc" where
  "msvc = \<lparr>RAND_MAX = 32767, srand = (\<lambda>seed. seed), rand = msvc_rand\<rparr>"

section \<open>Training costs\<close>

text \<open>
  \<^verbatim>\<open>Cost(logits, indices, mask, costType, smoothing)\<close>, in the two phases of its body.
  The first phase builds the per-token cross-entropy \<^verbatim>\<open>ce\<close>: smoothed when
  \<^verbatim>\<open>smoothing > 0\<close>, multiplied by the mask when the mask is not the empty expression.
  The difference \<^verbatim>\<open>1 - smoothing\<close> is a single-precision subtraction, whose result is
  rounded (for a tiny \<^verbatim>\<open>smoothing\<close> it is 1 again): the subtraction of the processor
  is the parameter \<open>sub32\<close>.
  Modelled from the spec: the conversion of an expression to \<^verbatim>\<open>bool\<close> in \<^verbatim>\<open>if (mask)\<close>
  is declared in \<^verbatim>\<open>CNTKLibrary.h\<close>, which is not part of the sources; the empty expression
  is the sentinel for an operand that is not supplied, so the test holds for every
  other expression.
\<close>

type_synonym float_subtraction = "float \<Rightarrow> float \<Rightarrow> float"

definition Cost_ce ::
  "float_subtraction \<Rightarrow> shape_inference \<Rightarrow> Expr \<Rightarrow> Expr \<Rightarrow> Expr \<Rightarrow> float \<Rightarrow> error + Expr"
where
  "Cost_ce sub32 S logits indices msk smoothing =
     bind (cross_entropy S logits indices) (\<lambda>ce0.
     bind (if float_less (float_of_int 0) smoothing
           then bind (mean S (logsoftmax logits) (- 1)) (\<lambda>ceq.
                  Inr (operator_minus
                         (operator_times_SE (of_float (sub32 (float_of_int 1) smoothing)) ce0)
                         (operator_times_SE (of_float smoothing) ceq)))
           else Inr ce0) (\<lambda>ce1.
       Inr (if msk \<noteq> NullVariable then operator_times ce1 msk else ce1)))"

text \<open>The second phase reduces \<^verbatim>\<open>ce\<close> by the chain of comparisons on \<^verbatim>\<open>costType\<close>.\<close>

definition Cost ::
  "float_subtraction \<Rightarrow> shape_inference \<Rightarrow> Expr \<Rightarrow> Expr \<Rightarrow> Expr \<Rightarrow> string \<Rightarrow> float \<Rightarrow>
   error + Expr"
where
  "Cost sub32 S logits indices msk costType smoothing =
     bind (Cost_ce sub32 S logits indices msk smoothing) (\<lambda>ce.
       if costType = ''ce-mean'' \<or> costType = ''cross-entropy''
       then bind (sum_Expr S ce (- 3)) (\<lambda>s. mean S s (- 2))
       else if costType = ''ce-mean-words''
       then bind (sum_Expr S ce (- 3)) (\<lambda>s.
            bind (sum_Expr S s (- 2)) (\<lambda>num.
            bind (sum_Expr S msk (- 3)) (\<lambda>t.
            bind (sum_Expr S t (- 2)) (\<lambda>den. Inr (operator_div num den)))))
       else if costType = ''ce-sum''
       then bind (sum_Expr S ce (- 3)) (\<lambda>s. sum_Expr S s (- 2))
       else if costType = ''perplexity''
       then bind (sum_Expr S ce (- 3)) (\<lambda>s.
            bind (sum_Expr S s (- 2)) (\<lambda>num.
            bind (sum_Expr S msk (- 3)) (\<lambda>t.
            bind (sum_Expr S t (- 2)) (\<lambda>den. Inr (exp_Expr (operator_div num den))))))
       else if costType = ''ce-rescore''
       then bind (sum_Expr S ce (- 3)) (\<lambda>s. Inr (operator_neg s))
       else bind (sum_Expr S ce (- 3)) (\<lambda>s. mean S s (- 2)))"

text \<open>
  What \<^verbatim>\<open>Cost\<close> is to compute, in the words of the specification and as nodes of the
  engine. A tensor of the emulated layout ends with the axes of the position in the
  sequence (\<open>-3\<close>), of the sequence in the batch (\<open>-2\<close>) and of the class (\<open>-1\<close>). By the
  formula of the specification, \<open>engine_axis = rank - 1 - (axis + rank)\<close>, these are the
  engine axes 2, 1 and 0, whatever the rank.
\<close>

definition sequence_axis :: size_t where
  "sequence_axis = 2"

definition batch_axis :: size_t where
  "batch_axis = 1"

definition class_axis :: size_t where
  "class_axis = 0"

text \<open>
  A product with a scalar and a quotient by an integer; by the numeric-identity
  shortcuts of the specification, multiplying or dividing by 1 is the operand itself.
\<close>

definition times_scalar :: "float \<Rightarrow> Expr \<Rightarrow> Expr" where
  "times_scalar a x = (if float_eq a (Fin 1) then x else ElementTimes (ScalarConstant a) x)"


text \<open>
  The per-token cross-entropy: the softmax cross-entropy of the logits against the
  one-hot encoding of the label indices along the class axis, sized to the class count;
  with smoothing \<open>s > 0\<close>, \<open>(1 - s) * ce - s * meanLogSoftmax\<close>; multiplied by the
  mask when a mask is supplied.
\<close>

definition spec_cross_entropy :: "Expr \<Rightarrow> Expr \<Rightarrow> size_t \<Rightarrow> Expr" where
  "spec_cross_entropy logits indices numClasses =
     Alias (CrossEntropyWithSoftmax logits (OneHotOp indices numClasses True class_axis)
              class_axis)"

definition spec_per_token_ce ::
  "float_subtraction \<Rightarrow> Expr \<Rightarrow> Expr \<Rightarrow> Expr \<Rightarrow> float \<Rightarrow> size_t \<Rightarrow> Expr" where
  "spec_per_token_ce sub32 logits indices msk smoothing numClasses =
     (let ce = spec_cross_entropy logits indices numClasses;
          smoothed =
            (if float_less (Fin 0) smoothing
             then Minus (times_scalar (sub32 (Fin 1) smoothing) ce)
                    (times_scalar smoothing
                       (ReduceMean (LogSoftmax logits class_axis) class_axis))
             else ce)
      in if msk = NullVariable then smoothed else ElementTimes smoothed msk)"

text \<open>The table of reductions of the specification.\<close>

datatype reduction =
    mean_over_batch_of_sequence_sum
  | sum_over_tokens_divided_by_mask_sum
  | sum_over_tokens
  | exponential_of_per_token_mean
  | negative_sequence_sum

definition spec_reduction_table :: "(string \<times> reduction) list" where
  "spec_reduction_table =
     [(''ce-mean'', mean_over_batch_of_sequence_sum),
      (''cross-entropy'', mean_over_batch_of_sequence_sum),
      (''ce-mean-words'', sum_over_tokens_divided_by_mask_sum),
      (''ce-sum'', sum_over_tokens),
      (''perplexity'', exponential_of_per_token_mean),
      (''ce-rescore'', negative_sequence_sum)]"

definition spec_reduction :: "string \<Rightarrow> reduction" where
  "spec_reduction costType =
     (case map_of spec_reduction_table costType of
        Some r \<Rightarrow> r
      | None \<Rightarrow> mean_over_batch_of_sequence_sum)"

definition uses_mask_sum :: "reduction \<Rightarrow> bool" where
  "uses_mask_sum r =
     (r = sum_over_tokens_divided_by_mask_sum \<or> r = exponential_of_per_token_mean)"

text \<open>
  The sum over all tokens is the sum over the positions of each sequence, summed over
  the sequences of the batch.
\<close>

definition spec_sum_over_tokens :: "Expr \<Rightarrow> Expr" where
  "spec_sum_over_tokens x = ReduceSum (ReduceSum x sequence_axis) batch_axis"

definition spec_reduce :: "reduction \<Rightarrow> Expr \<Rightarrow> Expr \<Rightarrow> Expr" where
  "spec_reduce r ce msk =
     (case r of
        mean_over_batch_of_sequence_sum \<Rightarrow>
          ReduceMean (ReduceSum ce sequence_axis) batch_axis
      | sum_over_tokens_divided_by_mask_sum \<Rightarrow>
          ElementDivide (spec_sum_over_tokens ce) (spec_sum_over_tokens msk)
      | sum_over_tokens \<Rightarrow> spec_sum_over_tokens ce
      | exponential_of_per_token_mean \<Rightarrow>
          Exp (ElementDivide (spec_sum_over_tokens ce) (spec_sum_over_tokens msk))
      | negative_sequence_sum \<Rightarrow> Negate (ReduceSum ce sequence_axis))"

text \<open>
  An expression can be reduced along its last \<open>lo\<close> emulated axes when it is not empty
  and its rank is at least \<open>lo\<close> (and within the range of the \<^verbatim>\<open>int\<close> axis index).
\<close>

definition rank_between :: "shape_inference \<Rightarrow> Expr \<Rightarrow> nat \<Rightarrow> bool" where
  "rank_between S x lo = (x \<noteq> NullVariable \<and> lo \<le> length (S x) \<and> length (S x) \<le> 2 ^ 31)"














text \<open>
  To run examples: an engine in which a reshaped expression has the requested shape and
  every other expression the engine shape \<open>[4, 3, 1, 2]\<close> (target length 4, source
  length 3, batch size 2); an engine in which every expression has rank 2; options
  that name an alignment cost and the weight 3; and a reference alignment of 24 zeros
  with its constant.
\<close>

definition example_engine :: shape_inference where
  "example_engine e = (case e of Reshape x viewShape \<Rightarrow> viewShape | _ \<Rightarrow> [4, 3, 1, 2])"

definition example_rank2 :: shape_inference where
  "example_rank2 = (\<lambda>e. [4, 3])"




section \<open>Facts about the axis mapping\<close>

lemma sint32_lower: "- 2147483648 \<le> sint (a :: int32)"
  using sint_ge [of a] by simp

lemma sint32_upper: "sint (a :: int32) < 2147483648"
  using sint_lt [of a] by simp

lemma narrow_of_int: "(ucast (word_of_int k :: size_t) :: int32) = word_of_int k"
  by (simp add: ucast_down_wi is_down)

lemma widen_plus_rank:
  "(scast (a :: int32) :: size_t) + rank = word_of_int (sint a + uint rank)"
proof -
  have "(word_of_int (sint a + uint rank) :: size_t)
      = word_of_int (sint a) + word_of_int (uint rank)"
    by (rule wi_hom_syms)
  also have "\<dots> = scast a + rank"
    by (simp only: scast_eq [symmetric] word_of_int_uint)
  finally show ?thesis by (rule sym)
qed

lemma sint_normalized:
  assumes "sint (a :: int32) < 0" and "uint (rank :: size_t) \<le> 2147483648"
  shows "sint (ucast ((scast a :: size_t) + rank) :: int32) = sint a + uint rank"
proof -
  have lo: "- 2147483648 \<le> sint a + uint rank"
    using sint32_lower [of a] uint_ge_0 [of rank] by linarith
  have hi: "sint a + uint rank < 2147483648"
    using assms by linarith
  have "signed_take_bit (31::nat) (sint a + uint rank) = sint a + uint rank"
    using lo hi by (intro signed_take_bit_int_eq_self) simp_all
  then have "sint (word_of_int (sint a + uint rank) :: int32) = sint a + uint rank"
    by (simp only: sint_sbintrunc') simp
  then show ?thesis
    by (simp only: widen_plus_rank narrow_of_int)
qed

lemma uint_widen_nonneg:
  assumes "0 \<le> sint (a :: int32)"
  shows "uint (scast a :: size_t) = sint a"
proof -
  have "sint a < 18446744073709551616" using sint32_upper [of a] by linarith
  then have "take_bit (64::nat) (sint a) = sint a"
    using assms by (intro take_bit_int_eq_self) simp_all
  then have "uint (word_of_int (sint a) :: size_t) = sint a"
    by (simp only: uint_word_of_int_eq) simp
  then show ?thesis
    by (simp only: scast_eq)
qed

lemma engine_axis_of_int:
  "(rank :: size_t) - 1 - scast (a :: int32) = word_of_int (uint rank - 1 - sint a)"
proof -
  have "(word_of_int (uint rank - 1 - sint a) :: size_t)
      = word_of_int (uint rank) - word_of_int 1 - word_of_int (sint a)"
    by (simp only: wi_hom_syms)
  also have "\<dots> = rank - 1 - scast a"
    by (simp only: scast_eq [symmetric] word_of_int_uint word_of_int_1)
  finally show ?thesis by (rule sym)
qed

lemma ToCNTKAxis_int:
  "ToCNTKAxis rank a =
     (if (if sint a < 0 then sint (ucast ((scast a :: size_t) + rank) :: int32) else sint a) < 0
       \<or> uint rank \<le> uint (scast (if sint a < 0
                                    then (ucast ((scast a :: size_t) + rank) :: int32)
                                    else a) :: size_t)
      then Inl (InvalidArgument ''marian::ToCNTKAxis: axis out of range'')
      else Inr (word_of_int (uint rank - 1 -
             (if sint a < 0 then sint (ucast ((scast a :: size_t) + rank) :: int32)
              else sint a))))"
  unfolding ToCNTKAxis_def Let_def word_sless_alt word_le_def engine_axis_of_int sint_0
  by (cases "sint a < 0") (simp_all only: if_True if_False)

text \<open>
  C1 (as stated in the specification, for every rank): the claim fails once the rank
  exceeds the range of \<^verbatim>\<open>int\<close>. At rank \<open>2^32\<close> and axis \<open>-1\<close> the normalized axis
  \<open>2^32 - 1\<close> lies in \<open>[0, rank)\<close>, so the claim promises engine axis \<open>0\<close>; the sum
  narrowed to \<^verbatim>\<open>int\<close> is \<open>-1\<close> again and the code raises the out-of-range error.
\<close>

theorem ToCNTKAxis_huge_rank_counterexample:
  "0 \<le> normalized_axis (uint (4294967296 :: size_t)) (sint (- 1 :: int32))
   \<and> normalized_axis (uint (4294967296 :: size_t)) (sint (- 1 :: int32))
       < uint (4294967296 :: size_t)
   \<and> ToCNTKAxis 4294967296 (- 1)
       = Inl (InvalidArgument ''marian::ToCNTKAxis: axis out of range'')"
  by (simp add: ToCNTKAxis_def normalized_axis_def word_sless_alt)

text \<open>
  C1 (amended): for every rank \<open>r \<le> 2^31\<close> and every \<^verbatim>\<open>int\<close> axis index \<open>a\<close>,
  \<^verbatim>\<open>ToCNTKAxis\<close> returns the engine axis \<open>r - 1 - (if a < 0 then a + r else a)\<close> when that
  normalized axis lies in \<open>[0, r)\<close>, and raises the out-of-range error otherwise; no
  wrapped value is ever returned.
\<close>

theorem ToCNTKAxis_formula:
  assumes "uint rank \<le> 2 ^ 31"
  shows "ToCNTKAxis rank a =
    (if 0 \<le> normalized_axis (uint rank) (sint a)
        \<and> normalized_axis (uint rank) (sint a) < uint rank
     then Inr (word_of_int (uint rank - 1 - normalized_axis (uint rank) (sint a)))
     else Inl (InvalidArgument ''marian::ToCNTKAxis: axis out of range''))"
proof -
  define b :: int32
    where "b = (if sint a < 0 then ucast ((scast a :: size_t) + rank) else a)"
  have sb: "sint b = normalized_axis (uint rank) (sint a)"
  proof (cases "sint a < 0")
    case True
    then show ?thesis
      using sint_normalized [OF True, of rank] assms
      by (simp add: b_def normalized_axis_def)
  next
    case False
    then show ?thesis by (simp add: b_def normalized_axis_def)
  qed
  have unfold: "ToCNTKAxis rank a =
     (if sint b < 0 \<or> uint rank \<le> uint (scast b :: size_t)
      then Inl (InvalidArgument ''marian::ToCNTKAxis: axis out of range'')
      else Inr (word_of_int (uint rank - 1 - sint b)))"
    unfolding ToCNTKAxis_int b_def
    by (cases "sint a < 0") (simp_all only: if_True if_False)
  show ?thesis
  proof (cases "0 \<le> sint b")
    case True
    have "uint (scast b :: size_t) = sint b"
      using True by (rule uint_widen_nonneg)
    then have "ToCNTKAxis rank a =
     (if sint b < 0 \<or> uint rank \<le> sint b
      then Inl (InvalidArgument ''marian::ToCNTKAxis: axis out of range'')
      else Inr (word_of_int (uint rank - 1 - sint b)))"
      by (simp only: unfold)
    then show ?thesis using True unfolding sb [symmetric] by auto
  next
    case False
    then have "ToCNTKAxis rank a
        = Inl (InvalidArgument ''marian::ToCNTKAxis: axis out of range'')"
      by (simp only: unfold) simp
    then show ?thesis using False unfolding sb [symmetric] by simp
  qed
qed

theorem ToCNTKAxis_formula_witness:
  "uint (3 :: size_t) \<le> 2 ^ 31
   \<and> ToCNTKAxis 3 (- 1) = Inr 0 \<and> ToCNTKAxis 3 0 = Inr 2
   \<and> ToCNTKAxis 3 3 = Inl (InvalidArgument ''marian::ToCNTKAxis: axis out of range'')
   \<and> ToCNTKAxis 3 (- 4) = Inl (InvalidArgument ''marian::ToCNTKAxis: axis out of range'')"
  using ToCNTKAxis_formula [of 3 "- 1"] ToCNTKAxis_formula [of 3 0]
    ToCNTKAxis_formula [of 3 3] ToCNTKAxis_formula [of 3 "- 4"]
  by (simp add: normalized_axis_def)

section \<open>Facts about the shape conversion\<close>

lemma narrow_widen: "(ucast (scast (w :: int32) :: size_t) :: int32) = w"
proof -
  have "(ucast (scast w :: size_t) :: int32) = word_of_int (sint w)"
    by (simp only: scast_eq narrow_of_int)
  then show ?thesis by simp
qed

lemma operator_Shape_loop_inv:
  "i \<le> rank \<Longrightarrow> rank = length viewShape \<Longrightarrow> length shape = rank \<Longrightarrow>
   operator_Shape_loop viewShape rank i shape
     = take i shape @ drop i (rev (map ucast viewShape))"
proof (induction viewShape rank i shape rule: operator_Shape_loop.induct)
  case (1 viewShape rank i shape)
  show ?case
  proof (cases "i < rank")
    case True
    let ?v = "ucast (viewShape ! (rank - 1 - i)) :: int32"
    have nth: "rev (map ucast viewShape) ! i = ?v"
      using True "1.prems" by (simp add: rev_nth)
    have step: "operator_Shape_loop viewShape rank (i + 1) (Shape_set shape i ?v)
        = take (i + 1) (Shape_set shape i ?v) @ drop (i + 1) (rev (map ucast viewShape))"
      using True "1.prems" by (intro "1.IH") (simp_all add: Shape_set_def)
    have tk: "take (i + 1) (Shape_set shape i ?v) = take i shape @ [?v]"
      using True "1.prems" by (simp add: Shape_set_def take_Suc_conv_app_nth)
    have dr: "drop i (rev (map ucast viewShape))
        = ?v # drop (i + 1) (rev (map ucast viewShape))"
      using True "1.prems" nth by (simp add: Cons_nth_drop_Suc [symmetric])
    have "operator_Shape_loop viewShape rank i shape
        = operator_Shape_loop viewShape rank (i + 1) (Shape_set shape i ?v)"
      using True by (subst operator_Shape_loop.simps) simp
    then show ?thesis by (simp only: step tk dr) simp
  next
    case False
    then have "i = rank" using "1.prems" by simp
    then show ?thesis using "1.prems"
      by (subst operator_Shape_loop.simps) simp
  qed
qed

lemma operator_Shape_rev: "operator_Shape viewShape = rev (map ucast viewShape)"
  using operator_Shape_loop_inv
    [of 0 "length viewShape" viewShape "Shape_resize (length viewShape)"]
  by (simp add: operator_Shape_def Shape_resize_def)

lemma prod_list_widen:
  "prod_list (map (scast :: int32 \<Rightarrow> size_t) s) = word_of_int (prod_list (map sint s))"
proof (induction s)
  case Nil
  show ?case by simp
next
  case (Cons a s)
  have "(scast a :: size_t) = word_of_int (sint a)" by (rule scast_eq)
  then show ?case using Cons by (simp only: list.map prod_list.Cons wi_hom_syms)
qed

lemma operator_Shape_ToNDShape: "operator_Shape (ToNDShape s) = s"
proof -
  have "operator_Shape (ToNDShape s) = map (\<lambda>w. ucast (scast w :: size_t)) s"
    by (simp add: operator_Shape_rev ToNDShape_def rev_map comp_def)
  then show ?thesis
    by (simp only: narrow_widen) simp
qed

lemma ToNDShape_inj: "ToNDShape s = ToNDShape s' \<Longrightarrow> s = s'"
  by (metis operator_Shape_ToNDShape)

text \<open>
  C2: for every Marian shape \<open>s\<close>, of any rank (so also ranks 0 to 6), converting to the
  engine shape with \<^verbatim>\<open>ToNDShape\<close> and back with \<^verbatim>\<open>ShapeProxy::operator Shape\<close> gives \<open>s\<close>
  again. \<^verbatim>\<open>ToNDShape\<close> is the plain reversal of the axis order (and so is the way back,
  which makes the reversal its own inverse); it keeps the rank and the total element
  count, the product of the extents.
\<close>

theorem Shape_roundtrip:
  "operator_Shape (ToNDShape s) = s
   \<and> ToNDShape s = rev (map scast s)
   \<and> operator_Shape (ToNDShape s) = rev (map ucast (ToNDShape s))
   \<and> Rank (ToNDShape s) = of_nat (length s)
   \<and> TotalSize (ToNDShape s) = word_of_int (prod_list (map sint s))"
proof -
  have total: "TotalSize (ToNDShape s) = word_of_int (prod_list (map sint s))"
    unfolding TotalSize_def ToNDShape_def
    by (simp only: prod_list.rev prod_list_widen)
  have reversal: "ToNDShape s = rev (map scast s)"
    by (simp only: ToNDShape_def)
  have rank: "Rank (ToNDShape s) = of_nat (length s)"
    by (simp add: ToNDShape_def Rank_def)
  show ?thesis
    using operator_Shape_ToNDShape [of s] operator_Shape_rev [of "ToNDShape s"]
      total reversal rank
    by (intro conjI)
qed

section \<open>Facts about the configuration dictionary\<close>

lemma map_of_store: "map_of (Dictionary_store d key v) = (map_of d)(key \<mapsto> v)"
  by (induction d key v rule: Dictionary_store.induct) auto

lemma read_present: "map_of d key = Some v \<Longrightarrow> Dictionary_read d key = (v, d)"
  by (simp add: Dictionary_read_def)

lemma merge_loop_step_absent:
  assumes "\<not> Contains (h this) key" and "map_of (h other) key = Some v"
  shows "this \<noteq> other"
    and "merge_loop h this other (key # keys)
          = merge_loop (h(this := Dictionary_store (h this) key v)) this other keys"
proof -
  show ne: "this \<noteq> other" using assms by (auto simp: Contains_def)
  show "merge_loop h this other (key # keys)
          = merge_loop (h(this := Dictionary_store (h this) key v)) this other keys"
    using assms ne by (simp add: read_present)
qed

lemma merge_loop_this:
  "set keys \<subseteq> dom (map_of (h other)) \<Longrightarrow>
   map_of (merge_loop h this other keys this) k =
     (case map_of (h this) k of Some v \<Rightarrow> Some v
      | None \<Rightarrow> if k \<in> set keys then map_of (h other) k else None)"
proof (induction keys arbitrary: h)
  case Nil
  show ?case by (simp split: option.splits)
next
  case (Cons key keys)
  obtain v where v: "map_of (h other) key = Some v" using Cons.prems by auto
  show ?case
  proof (cases "Contains (h this) key")
    case True
    then show ?thesis using Cons.IH [of h] Cons.prems
      by (auto simp: Contains_def split: option.splits)
  next
    case False
    define h2 where "h2 = h(this := Dictionary_store (h this) key v)"
    have ne: "this \<noteq> other" and step: "merge_loop h this other (key # keys) = merge_loop h2 this other keys"
      using merge_loop_step_absent [OF False v] by (simp_all add: h2_def)
    have h2_other: "h2 other = h other" and h2_this: "map_of (h2 this) = (map_of (h this))(key \<mapsto> v)"
      using ne by (simp_all add: h2_def map_of_store)
    have "set keys \<subseteq> dom (map_of (h2 other))" using Cons.prems h2_other by simp
    from Cons.IH [of h2, OF this]
    have "map_of (merge_loop h2 this other keys this) k =
     (case map_of (h2 this) k of Some v \<Rightarrow> Some v
      | None \<Rightarrow> if k \<in> set keys then map_of (h2 other) k else None)" .
    then show ?thesis
      using False v unfolding step h2_other h2_this
      by (auto simp: Contains_def split: option.splits if_splits)
  qed
qed

lemma merge_loop_others:
  "set keys \<subseteq> dom (map_of (h other)) \<Longrightarrow> p \<noteq> this \<Longrightarrow> merge_loop h this other keys p = h p"
proof (induction keys arbitrary: h)
  case Nil
  show ?case by simp
next
  case (Cons key keys)
  obtain v where v: "map_of (h other) key = Some v" using Cons.prems by auto
  show ?case
  proof (cases "Contains (h this) key")
    case True
    then show ?thesis using Cons.IH [of h] Cons.prems by simp
  next
    case False
    define h2 where "h2 = h(this := Dictionary_store (h this) key v)"
    have ne: "this \<noteq> other" and step: "merge_loop h this other (key # keys) = merge_loop h2 this other keys"
      using merge_loop_step_absent [OF False v] by (simp_all add: h2_def)
    have h2_other: "h2 other = h other" and h2_p: "h2 p = h p"
      using ne Cons.prems by (simp_all add: h2_def)
    have "set keys \<subseteq> dom (map_of (h2 other))" using Cons.prems h2_other by simp
    from Cons.IH [of h2, OF this Cons.prems(2)] show ?thesis
      unfolding step h2_p .
  qed
qed

lemma merge_loop_self:
  "set keys \<subseteq> dom (map_of (h this)) \<Longrightarrow> merge_loop h this this keys = h"
  by (induction keys) (auto simp: Contains_def)

lemma Keys_dom: "set (Keys d) = dom (map_of d)"
  by (auto simp: Keys_def dom_map_of_conv_image_fst)

text \<open>
  C7: for all dictionaries \<open>A\<close> (at pointer \<^verbatim>\<open>this\<close>) and \<open>B\<close> (at pointer \<^verbatim>\<open>other\<close>), after
  \<^verbatim>\<open>A.merge(B)\<close> a key of \<open>A\<close> keeps the value it had in \<open>A\<close>, a key of \<open>B\<close> that \<open>A\<close> did
  not have is in \<open>A\<close> with the value of \<open>B\<close>, and no other key appears; no dictionary
  other than \<open>A\<close> changes, so \<open>B\<close> is not mutated, and merging a dictionary into itself
  changes nothing. The witness is the example of the specification:
  \<open>{lr: 0.1}\<close> merged with \<open>{lr: 0.2, seed: 42}\<close> gives \<open>{lr: 0.1, seed: 42}\<close>.
\<close>

theorem merge_first_writer_wins:
  "(\<forall>k. map_of (merge h this other this) k =
        (case map_of (h this) k of Some v \<Rightarrow> Some v | None \<Rightarrow> map_of (h other) k))
   \<and> (\<forall>p. p \<noteq> this \<longrightarrow> merge h this other p = h p)
   \<and> (other = this \<longrightarrow> merge h this other = h)"
proof (intro conjI allI impI)
  fix k
  have "map_of (merge h this other this) k =
     (case map_of (h this) k of Some v \<Rightarrow> Some v
      | None \<Rightarrow> if k \<in> set (Keys (h other)) then map_of (h other) k else None)"
    unfolding merge_def by (rule merge_loop_this) (simp add: Keys_dom)
  then show "map_of (merge h this other this) k =
        (case map_of (h this) k of Some v \<Rightarrow> Some v | None \<Rightarrow> map_of (h other) k)"
    by (auto simp: Keys_dom domIff split: option.splits)
next
  fix p assume "p \<noteq> this"
  then show "merge h this other p = h p"
    unfolding merge_def by (intro merge_loop_others) (simp_all add: Keys_dom)
next
  assume "other = this"
  then show "merge h this other = h"
    unfolding merge_def by (simp add: merge_loop_self Keys_dom)
qed

theorem merge_first_writer_wins_witness:
  "merge example_store 0 1 0 = [(''lr'', DV_Double (Fin (1/10))), (''seed'', DV_Int 42)]
   \<and> map_of (merge example_store 0 1 0) ''lr'' = Some (DV_Double (Fin (1/10)))
   \<and> map_of (merge example_store 0 1 0) ''seed'' = map_of (example_store 1) ''seed''
   \<and> (1::nat) \<noteq> 0 \<and> merge example_store 0 1 1 = example_store 1"
  using merge_first_writer_wins [of example_store 0 1]
  by (simp add: merge_def example_store_def example_A_def example_B_def Keys_def Contains_def Dictionary_read_def)

section \<open>Facts about the parameter graph\<close>

lemma param_registered:
  assumes "m_allParametersMap g name = Some p"
  shows "param fill (hp, g) name shape init fixed =
     (if Shape p \<noteq> ToNDShape shape then Inl shape_mismatch else Inr (ParameterVar p, hp, g))"
  using assms by (simp add: param_def)

lemma param_unregistered:
  assumes "m_allParametersMap g name = None" and "initializer_fits init shape"
  shows "\<exists>v. view_shape v = ToNDShape shape \<and>
     param fill (hp, g) name shape init fixed =
       Inr (ParameterVar (Parameter (length hp) (ToNDShape shape)), hp @ [v],
            register_parameter g name (Parameter (length hp) (ToNDShape shape)))"
proof (cases "map_of init ''from_vector''")
  case None
  then have "param fill (hp, g) name shape init fixed =
       Inr (ParameterVar (Parameter (length hp) (ToNDShape shape)),
            hp @ [\<lparr>view_shape = ToNDShape shape, view_data = fill init (ToNDShape shape)\<rparr>],
            register_parameter g name (Parameter (length hp) (ToNDShape shape)))"
    using assms(1) by (simp add: param_def Contains_def new_Parameter_def Let_def)
  then show ?thesis by (intro exI conjI) (auto intro: refl)
next
  case (Some dv)
  then obtain a where dv: "dv = DV_NDArrayView a"
    and sz: "TotalSize (view_shape a) = TotalSize (ToNDShape shape)"
    using assms(2) by (auto simp: initializer_fits_def split: DictionaryValue.splits)
  have "param fill (hp, g) name shape init fixed =
       Inr (ParameterVar (Parameter (length hp) (ToNDShape shape)),
            hp @ [\<lparr>view_shape = ToNDShape shape, view_data = view_data a\<rparr>],
            register_parameter g name (Parameter (length hp) (ToNDShape shape)))"
    using assms(1) Some dv sz
    by (simp add: param_def Contains_def new_Parameter_def Dictionary_at_def bind_def
        Value_NDArrayView_def Let_def)
  then show ?thesis by (intro exI conjI) (auto intro: refl)
qed

lemma param_keeps_entry:
  assumes "param fill st name' shape init fixed = Inr (e, hp2, g2)"
    and "m_allParametersMap (snd st) name = Some p"
  shows "m_allParametersMap g2 name = Some p"
proof (cases "m_allParametersMap (snd st) name'")
  case None
  then have ne: "name' \<noteq> name" using assms(2) by auto
  have "m_allParametersMap g2 = map_insert (m_allParametersMap (snd st)) name' (Parameter (length (fst st)) (ToNDShape shape))"
    using assms(1) None
    by (auto simp: param_def bind_def new_Parameter_def register_parameter_def Let_def
        split: if_splits sum.splits)
  then show ?thesis using None ne assms(2) by (simp add: map_insert_def)
next
  case (Some q)
  then have "g2 = snd st" using assms(1)
    by (auto simp: param_def Let_def split: if_splits)
  then show ?thesis using assms(2) by simp
qed

lemma later_keeps_entry:
  assumes "later fill st st'" and "m_allParametersMap (snd st) name = Some p"
  shows "m_allParametersMap (snd st') name = Some p"
  using assms
proof (induction rule: later.induct)
  case later_now
  then show ?case by simp
next
  case (later_param st1 name' shape init fixed e hp2 g2)
  then show ?case using param_keeps_entry [of fill st1 name' shape init fixed e hp2 g2 name p] by simp
next
  case (later_backprop hp1 g1 filled)
  then show ?case by (simp add: backprop_def)
next
  case (later_values hp1 g1 hp2)
  then show ?case by simp
qed

text \<open>
  C3 (as stated in the specification, for every initializer): the claim fails for an
  initializer that carries a data buffer of the wrong size. The first call
  \<^verbatim>\<open>param("W1", {2,2}, from_vector({1,2,3}))\<close> on an empty graph raises
  \<^verbatim>\<open>InvalidArgument\<close> and allocates and registers nothing.
\<close>

theorem param_first_call_counterexample:
  "m_allParametersMap ExpressionGraph_new ''W1'' = None
   \<and> param zero_fill ([], ExpressionGraph_new) ''W1'' [2, 2]
         (from_vector [Fin 1, Fin 2, Fin 3]) False
       = Inl (InvalidArgument ''marian::constant: vector size does not match viewShape'')"
  by (simp add: param_def ExpressionGraph_new_def from_vector_def Contains_def
      Dictionary_at_def Value_NDArrayView_def bind_def TotalSize_def ToNDShape_def)

text \<open>
  C3 (amended): for every parameter name \<open>n\<close> that is not registered yet, every shape \<open>s\<close>
  and every initializer that fits \<open>s\<close> (it carries no \<^verbatim>\<open>from_vector\<close> buffer, or one whose
  element count is that of \<open>s\<close>), the first call \<^verbatim>\<open>param(n, s, init)\<close> allocates a new
  tensor of shape \<open>s\<close> (a handle the heap did not hold), registers it in the name table
  and the parameter list, and seeds its gradient-map entry with the null gradient.
  From then on, whatever further \<^verbatim>\<open>param\<close> calls, backward passes and value updates
  happen, every call \<^verbatim>\<open>param(n, s', ...)\<close> with \<open>s' = s\<close> returns the identical handle and
  leaves heap and graph as they are, and every call with \<open>s' \<noteq> s\<close> raises the
  shape-mismatch error.
\<close>

theorem param_contract:
  assumes "m_allParametersMap g name = None" and "initializer_fits init shape"
  shows "\<exists>p hp' g'.
      param fill (hp, g) name shape init fixed = Inr (ParameterVar p, hp', g')
    \<and> uid p = length hp \<and> length hp' = length hp + 1 \<and> take (length hp) hp' = hp
    \<and> Shape p = ToNDShape shape \<and> view_shape (hp' ! uid p) = ToNDShape shape
    \<and> m_allParametersMap g' = (m_allParametersMap g)(name \<mapsto> p)
    \<and> m_allParameters g' = m_allParameters g @ [p]
    \<and> m_allGradients g' = (m_allGradients g)(p \<mapsto> None)
    \<and> (\<forall>st' shape' init' fixed'. later fill (hp', g') st' \<longrightarrow>
          param fill st' name shape' init' fixed' =
            (if shape' = shape then Inr (ParameterVar p, st') else Inl shape_mismatch))"
proof -
  let ?p = "Parameter (length hp) (ToNDShape shape)"
  obtain v where v: "view_shape v = ToNDShape shape"
    and call: "param fill (hp, g) name shape init fixed =
       Inr (ParameterVar ?p, hp @ [v], register_parameter g name ?p)"
    using param_unregistered [OF assms] by blast
  have entry: "m_allParametersMap (register_parameter g name ?p) name = Some ?p"
    using assms(1) by (simp add: register_parameter_def map_insert_def)
  have again: "param fill st' name shape' init' fixed' =
            (if shape' = shape then Inr (ParameterVar ?p, st') else Inl shape_mismatch)"
    if "later fill (hp @ [v], register_parameter g name ?p) st'" for st' shape' init' fixed'
  proof -
    have "m_allParametersMap (snd st') name = Some ?p"
      using later_keeps_entry [OF that] entry by simp
    then have "param fill (fst st', snd st') name shape' init' fixed' =
     (if Shape ?p \<noteq> ToNDShape shape' then Inl shape_mismatch
      else Inr (ParameterVar ?p, fst st', snd st'))"
      by (rule param_registered)
    moreover have "ToNDShape shape = ToNDShape shape' \<longleftrightarrow> shape' = shape"
      using ToNDShape_inj by auto
    ultimately show ?thesis by simp
  qed
  show ?thesis
    apply (rule exI [of _ ?p], rule exI [of _ "hp @ [v]"], rule exI [of _ "register_parameter g name ?p"])
    using call v assms(1) again
    by (simp add: register_parameter_def map_insert_def)
qed

theorem param_contract_witness:
  "m_allParametersMap ExpressionGraph_new ''W1'' = None
   \<and> initializer_fits zeros [2, 2]
   \<and> (\<exists>p hp' g'.
         param zero_fill ([], ExpressionGraph_new) ''W1'' [2, 2] zeros False
           = Inr (ParameterVar p, hp', g')
       \<and> uid p = 0 \<and> length hp' = 1
       \<and> m_allGradients g' p = Some None
       \<and> param zero_fill (hp', g') ''W1'' [2, 2] zeros False = Inr (ParameterVar p, hp', g')
       \<and> param zero_fill (hp', g') ''W1'' [3, 3] zeros False = Inl shape_mismatch)"
proof -
  have unregistered: "m_allParametersMap ExpressionGraph_new ''W1'' = None"
    by (simp add: ExpressionGraph_new_def)
  have fits: "initializer_fits zeros [2, 2]"
    by (simp add: initializer_fits_def zeros_def ConstantInitializer_def)
  from param_contract [OF unregistered fits, of zero_fill "[]" False]
  obtain p hp' g' where first:
      "param zero_fill ([], ExpressionGraph_new) ''W1'' [2, 2] zeros False
         = Inr (ParameterVar p, hp', g')"
    and new: "uid p = 0" "length hp' = 1"
    and grad: "m_allGradients g' = (m_allGradients ExpressionGraph_new)(p \<mapsto> None)"
    and again: "\<And>st' shape' init' fixed'. later zero_fill (hp', g') st' \<Longrightarrow>
          param zero_fill st' ''W1'' shape' init' fixed' =
            (if shape' = [2, 2] then Inr (ParameterVar p, st') else Inl shape_mismatch)"
    by auto
  have now: "later zero_fill (hp', g') (hp', g')" by (rule later_now)
  have same: "param zero_fill (hp', g') ''W1'' [2, 2] zeros False = Inr (ParameterVar p, hp', g')"
    using again [OF now, of "[2, 2]" zeros False] by simp
  have other: "param zero_fill (hp', g') ''W1'' [3, 3] zeros False = Inl shape_mismatch"
    using again [OF now, of "[3, 3]" zeros False] by simp
  show ?thesis
    using unregistered fits first new grad same other by auto
qed

section \<open>Facts about the optimizer wrapper\<close>

lemma Learner_Update_loop_length:
  "length (Learner_Update_loop step l G ps hp) = length hp"
  by (induction ps arbitrary: hp) simp_all

lemma Learner_Update_loop_untouched:
  "\<forall>p \<in> set ps. uid p \<noteq> i \<Longrightarrow> Learner_Update_loop step l G ps hp ! i = hp ! i"
  by (induction ps arbitrary: hp) simp_all

lemma update_length: "length (snd (update step st graph)) = length (snd st)"
  by (simp add: update_def Learner_Update_def Learner_Update_loop_length Let_def)

lemma update_first:
  "m_learner opt = None \<Longrightarrow>
   m_learner (fst (update step (opt, hp) graph)) = Some (m_LazyCreateLearner opt graph)"
  by (simp add: update_def Let_def)

lemma update_bound:
  "m_learner opt = Some l \<Longrightarrow> fst (update step (opt, hp) graph) = opt"
  by (simp add: update_def Let_def)

lemma update_bound_untouched:
  "m_learner opt = Some l \<Longrightarrow> \<forall>p \<in> set (learner_parameters l). uid p \<noteq> i \<Longrightarrow>
   snd (update step (opt, hp) graph) ! i = hp ! i"
  by (simp add: update_def Let_def Learner_Update_def Learner_Update_loop_untouched)

lemma updates_bound:
  "m_learner opt = Some l \<Longrightarrow> \<forall>p \<in> set (learner_parameters l). uid p \<noteq> i \<Longrightarrow>
   fst (updates step (opt, hp) graphs) = opt \<and> snd (updates step (opt, hp) graphs) ! i = hp ! i"
proof (induction graphs arbitrary: hp)
  case Nil
  show ?case by simp
next
  case (Cons graph graphs)
  obtain hp1 where u: "update step (opt, hp) graph = (opt, hp1)" and v: "hp1 ! i = hp ! i"
    using update_bound [OF Cons.prems(1), of step hp graph]
      update_bound_untouched [OF Cons.prems, of step hp graph]
    by (cases "update step (opt, hp) graph") simp
  show ?case using Cons.IH [OF Cons.prems, of hp1] u v by simp
qed

lemma new_learner:
  "m_LazyCreateLearner (OptimizerWrapper_new eta algorithmType) graph =
     \<lparr>learner_algorithm = algorithmType, learner_eta = eta,
      learner_parameters = m_allParameters graph\<rparr>"
  by (cases algorithmType) (simp_all add: OptimizerWrapper_new_def SGDLearner_def AdamLearner_def)

text \<open>
  C8: a new \<^verbatim>\<open>OptimizerWrapper\<close> is unbound: it holds the recipe and no learner. Its first
  \<^verbatim>\<open>update(graph)\<close> binds it to a learner built by the recipe (same algorithm and
  learning rate) over the parameter list of the graph as it is at that call. A
  parameter \<open>p'\<close> that \<^verbatim>\<open>param\<close> registers after that first update is in the graph but
  not among the learner's parameters, and every later run of \<^verbatim>\<open>update\<close> calls, on whatever
  graphs and gradient maps, keeps the wrapper bound to the same learner and leaves the
  value of \<open>p'\<close> unchanged.
\<close>

theorem optimizer_binds_once:
  assumes "allocated hp g"
    and "m_allParametersMap g name = None" and "initializer_fits init shape"
  shows "m_learner (OptimizerWrapper_new eta algorithmType) = None
    \<and> (\<exists>opt1 hp1 l p' hp2 g2.
          update step (OptimizerWrapper_new eta algorithmType, hp) g = (opt1, hp1)
        \<and> m_learner opt1 = Some l
        \<and> learner_parameters l = m_allParameters g
        \<and> learner_eta l = eta \<and> learner_algorithm l = algorithmType
        \<and> param fill (hp1, g) name shape init fixed = Inr (ParameterVar p', hp2, g2)
        \<and> p' \<in> set (m_allParameters g2) \<and> p' \<notin> set (learner_parameters l)
        \<and> (\<forall>graphs. fst (updates step (opt1, hp2) graphs) = opt1
                    \<and> snd (updates step (opt1, hp2) graphs) ! uid p' = hp2 ! uid p'))"
proof -
  let ?new = "OptimizerWrapper_new eta algorithmType"
  let ?l = "m_LazyCreateLearner ?new g"
  have unbound: "m_learner ?new = None" by (simp add: OptimizerWrapper_new_def)
  obtain opt1 hp1 where first: "update step (?new, hp) g = (opt1, hp1)"
    by (cases "update step (?new, hp) g") simp
  have bound: "m_learner opt1 = Some ?l"
    using update_first [OF unbound, of step hp g] first by simp
  have len: "length hp1 = length hp"
    using update_length [of step "(?new, hp)" g] first by simp
  let ?p = "Parameter (length hp1) (ToNDShape shape)"
  obtain v where call: "param fill (hp1, g) name shape init fixed =
       Inr (ParameterVar ?p, hp1 @ [v], register_parameter g name ?p)"
    using param_unregistered [OF assms(2,3), of fill hp1 fixed] by blast
  have params: "learner_parameters ?l = m_allParameters g"
    by (simp add: new_learner)
  have fresh: "\<forall>p \<in> set (learner_parameters ?l). uid p \<noteq> uid ?p"
    using assms(1) len params by (auto simp: allocated_def list_all_iff)
  then have notin: "?p \<notin> set (learner_parameters ?l)" by auto
  have excluded: "fst (updates step (opt1, hp1 @ [v]) graphs) = opt1
      \<and> snd (updates step (opt1, hp1 @ [v]) graphs) ! uid ?p = (hp1 @ [v]) ! uid ?p" for graphs
    using updates_bound [OF bound fresh] .
  show ?thesis
    apply (intro conjI)
     apply (rule unbound)
    apply (rule exI [of _ opt1], rule exI [of _ hp1], rule exI [of _ ?l], rule exI [of _ ?p],
        rule exI [of _ "hp1 @ [v]"], rule exI [of _ "register_parameter g name ?p"])
    using first bound call notin excluded
    by (simp add: new_learner register_parameter_def)
qed

theorem optimizer_binds_once_witness:
  "allocated (fst example_W1) (snd example_W1)
   \<and> m_allParametersMap (snd example_W1) ''W2'' = None
   \<and> initializer_fits zeros [3]
   \<and> (\<exists>opt1 hp1 p' hp2 g2.
         update example_step (OptimizerWrapper_new (Fin 1) Sgd, fst example_W1) (snd example_W1)
           = (opt1, hp1)
       \<and> param zero_fill (hp1, snd example_W1) ''W2'' [3] zeros False
           = Inr (ParameterVar p', hp2, g2)
       \<and> snd (updates example_step (opt1, hp2) [g2, g2]) ! uid p' = hp2 ! uid p')"
proof -
  have W1: "example_W1 =
      ([\<lparr>view_shape = [2, 2], view_data = zero_fill zeros [2, 2]\<rparr>],
       register_parameter ExpressionGraph_new ''W1'' (Parameter 0 [2, 2]))"
    by (simp add: example_W1_def param_def ExpressionGraph_new_def zeros_def
        ConstantInitializer_def Contains_def new_Parameter_def ToNDShape_def Let_def)
  have alloc: "allocated (fst example_W1) (snd example_W1)"
    by (simp add: W1 allocated_def register_parameter_def ExpressionGraph_new_def)
  have unregistered: "m_allParametersMap (snd example_W1) ''W2'' = None"
    by (simp add: W1 register_parameter_def ExpressionGraph_new_def map_insert_def)
  have fits: "initializer_fits zeros [3]"
    by (simp add: initializer_fits_def zeros_def ConstantInitializer_def)
  from optimizer_binds_once [OF alloc unregistered fits, of "Fin 1" Sgd example_step zero_fill False]
  obtain opt1 hp1 p' hp2 g2 where
      "update example_step (OptimizerWrapper_new (Fin 1) Sgd, fst example_W1) (snd example_W1)
         = (opt1, hp1)"
    and "param zero_fill (hp1, snd example_W1) ''W2'' [3] zeros False
         = Inr (ParameterVar p', hp2, g2)"
    and "\<And>graphs. snd (updates example_step (opt1, hp2) graphs) ! uid p' = hp2 ! uid p'"
    by blast
  then show ?thesis using alloc unregistered fits by blast
qed

section \<open>Facts about dropout\<close>

lemma DropoutMask_loop_Suc:
  "DropoutMask_loop lib R ikp (Suc n) gen =
     ((if float_less (Fin (real (fst (rand lib gen)))) R then ikp else Fin 0)
        # fst (DropoutMask_loop lib R ikp n (snd (rand lib gen))),
      snd (DropoutMask_loop lib R ikp n (snd (rand lib gen))))"
  by (simp add: Let_def float_of_int_def split: prod.splits)

lemma DropoutMask_loop_length:
  "length (fst (DropoutMask_loop lib R ikp n gen)) = n"
  by (induction n arbitrary: gen) (simp_all add: DropoutMask_loop_Suc del: DropoutMask_loop.simps(2))

lemma DropoutMask_loop_elements:
  "list_all (\<lambda>m. m = ikp \<or> m = Fin 0) (fst (DropoutMask_loop lib R ikp n gen))"
  by (induction n arbitrary: gen) (simp_all add: DropoutMask_loop_Suc del: DropoutMask_loop.simps(2))

lemma DropoutMask_loop_never:
  "(\<And>r. \<not> float_less (Fin (real r)) R) \<Longrightarrow>
   fst (DropoutMask_loop lib R ikp n gen) = replicate n (Fin 0)"
  by (induction n arbitrary: gen) (simp_all add: DropoutMask_loop_Suc del: DropoutMask_loop.simps(2))

lemma DropoutMask_loop_first:
  "fst (DropoutMask_loop lib R ikp (Suc n) gen) ! 0 =
     (if float_less (Fin (real (fst (rand lib gen)))) R then ikp else Fin 0)"
  by (simp add: DropoutMask_loop_Suc del: DropoutMask_loop.simps(2))

lemma DropoutMask_mask:
  "fst (DropoutMask lib st n dropProb) =
     fst (DropoutMask_loop lib
            (float_mul (float_sub (Fin 1) dropProb) (Fin (real (RAND_MAX lib))))
            (float_div (Fin 1) (float_sub (Fin 1) dropProb))
            (unat n) (srand lib (fst st)))"
  by (simp add: DropoutMask_def Let_def float_of_int_def split: prod.splits)

lemma DropoutMask_state:
  "fst (snd (DropoutMask lib st n dropProb)) = fst st + 1"
  by (simp add: DropoutMask_def Let_def split: prod.splits)

lemma DropoutMask_elements:
  "list_all (\<lambda>m. m = float_div (Fin 1) (float_sub (Fin 1) dropProb) \<or> m = Fin 0)
     (fst (DropoutMask lib st n dropProb))"
  unfolding DropoutMask_mask by (rule DropoutMask_loop_elements)

lemma DropoutMask_prob_one:
  "fst (DropoutMask lib st n (Fin 1)) = replicate (unat n) (Fin 0)"
  unfolding DropoutMask_mask by (rule DropoutMask_loop_never) simp

lemma DropoutMask_prob_zero_first:
  "0 < unat n \<Longrightarrow>
   fst (DropoutMask lib st n (Fin 0)) ! 0 =
     (if fst (rand lib (srand lib (fst st))) < RAND_MAX lib then Fin 1 else Fin 0)"
proof -
  assume "0 < unat n"
  then obtain k where k: "unat n = Suc k" by (cases "unat n") simp_all
  show ?thesis unfolding DropoutMask_mask k DropoutMask_loop_first by simp
qed

lemma DropoutMask_gen_independent:
  "fst (DropoutMask lib (seed, gen) n p) = fst (DropoutMask lib (seed, gen') n p)"
  by (simp add: DropoutMask_mask)

lemma DropoutMask_run_length: "length (DropoutMask_run lib st calls) = length calls"
  by (induction calls arbitrary: st) (auto simp: Let_def split: prod.splits)

lemma DropoutMask_run_nth:
  "k < length calls \<Longrightarrow>
   DropoutMask_run lib (seed, gen) calls ! k =
     fst (DropoutMask lib (seed + of_nat k, gen') (fst (snd (calls ! k))) (snd (snd (calls ! k))))"
proof (induction calls arbitrary: seed gen k)
  case Nil
  then show ?case by simp
next
  case (Cons c calls)
  obtain other n p where c: "c = (other, n, p)" by (cases c) auto
  obtain m st1 where d: "DropoutMask lib (seed, other gen) n p = (m, st1)"
    by (cases "DropoutMask lib (seed, other gen) n p") auto
  have s1: "fst st1 = seed + 1" using DropoutMask_state [of lib "(seed, other gen)" n p] d by simp
  show ?case
  proof (cases k)
    case 0
    have "m = fst (DropoutMask lib (seed, gen') n p)"
      using DropoutMask_gen_independent [of lib seed "other gen" n p gen'] d by simp
    then show ?thesis using 0 c d by simp
  next
    case (Suc j)
    then have j: "j < length calls" using Cons.prems by simp
    have st1: "st1 = (seed + 1, snd st1)" using s1 by (cases st1) simp
    have "DropoutMask_run lib (seed + 1, snd st1) calls ! j =
      fst (DropoutMask lib (seed + 1 + of_nat j, gen') (fst (snd (calls ! j))) (snd (snd (calls ! j))))"
      by (rule Cons.IH [OF j])
    then have "DropoutMask_run lib st1 calls ! j =
      fst (DropoutMask lib (seed + of_nat (Suc j), gen') (fst (snd (calls ! j))) (snd (snd (calls ! j))))"
      by (subst st1) (simp add: ac_simps)
    then show ?thesis using Suc c d by simp
  qed
qed

text \<open>
  C10: a run of \<^verbatim>\<open>DropoutMask\<close> calls starts with the static seed 1, and the \<open>k\<close>-th call
  (counting from 0) reseeds the generator with \<open>1 + k\<close>, so its mask is the one drawn
  from that seed for its element count and drop probability. Two runs that make the
  same sequence of calls (same element counts and drop probabilities) therefore produce
  the same masks, element for element, whatever state the generator is in when the runs
  start and whatever other code does to the generator between the calls. (The generator
  is that of one C library; the static counter is an \<^verbatim>\<open>int\<close>, taken to wrap.)
\<close>

theorem DropoutMask_deterministic:
  assumes "map snd calls = map snd calls'"
  shows "DropoutMask_run lib (seed_initial, gen) calls = DropoutMask_run lib (seed_initial, gen') calls'
    \<and> (\<forall>k < length calls.
          DropoutMask_run lib (seed_initial, gen) calls ! k =
            fst (DropoutMask lib (1 + of_nat k, srand lib (1 + of_nat k))
                   (fst (snd (calls ! k))) (snd (snd (calls ! k)))))"
proof (intro conjI allI impI)
  have len: "length calls = length calls'"
    using assms by (metis length_map)
  show "DropoutMask_run lib (seed_initial, gen) calls = DropoutMask_run lib (seed_initial, gen') calls'"
  proof (rule nth_equalityI)
    show "length (DropoutMask_run lib (seed_initial, gen) calls)
        = length (DropoutMask_run lib (seed_initial, gen') calls')"
      using len by (simp add: DropoutMask_run_length)
  next
    fix k assume "k < length (DropoutMask_run lib (seed_initial, gen) calls)"
    then have k: "k < length calls" and k': "k < length calls'"
      using len by (simp_all add: DropoutMask_run_length)
    have same: "snd (calls ! k) = snd (calls' ! k)"
      using assms k k' by (metis nth_map)
    show "DropoutMask_run lib (seed_initial, gen) calls ! k
        = DropoutMask_run lib (seed_initial, gen') calls' ! k"
      using DropoutMask_run_nth [OF k, of lib seed_initial gen gen]
        DropoutMask_run_nth [OF k', of lib seed_initial gen' gen] same
      by simp
  qed
next
  fix k assume k: "k < length calls"
  show "DropoutMask_run lib (seed_initial, gen) calls ! k =
            fst (DropoutMask lib (1 + of_nat k, srand lib (1 + of_nat k))
                   (fst (snd (calls ! k))) (snd (snd (calls ! k))))"
    using DropoutMask_run_nth [OF k, of lib seed_initial gen "srand lib (1 + of_nat k)"]
    by (simp add: seed_initial_def)
qed

theorem DropoutMask_deterministic_witness:
  "map snd [((\<lambda>g. g), 2 :: size_t, Fin (1/2)), ((\<lambda>g. g), 3, Fin (1/2))]
     = map snd [((\<lambda>g. g + 5), 2 :: size_t, Fin (1/2)), ((\<lambda>g. 7), 3, Fin (1/2))]
   \<and> DropoutMask_run msvc (seed_initial, 0)
        [((\<lambda>g. g), 2, Fin (1/2)), ((\<lambda>g. g), 3, Fin (1/2))]
     = DropoutMask_run msvc (seed_initial, 99)
        [((\<lambda>g. g + 5), 2, Fin (1/2)), ((\<lambda>g. 7), 3, Fin (1/2))]"
  using DropoutMask_deterministic
    [of "[((\<lambda>g. g), 2 :: size_t, Fin (1/2)), ((\<lambda>g. g), 3, Fin (1/2))]"
        "[((\<lambda>g. g + 5), 2 :: size_t, Fin (1/2)), ((\<lambda>g. 7), 3, Fin (1/2))]" msvc 0 99]
  by simp

text \<open>
  The first six numbers that the generator of the Microsoft C runtime draws after
  \<^verbatim>\<open>srand(30091)\<close>; the first one is \<^verbatim>\<open>RAND_MAX\<close>.
\<close>

lemma msvc_draws:
  "msvc_rand 30091 = (32767, 2147428898)"
  "msvc_rand 2147428898 = (17856, 3317704797)"
  "msvc_rand 3317704797 = (12981, 850778540)"
  "msvc_rand 850778540 = (17114, 1121632703)"
  "msvc_rand 1121632703 = (6218, 2554992006)"
  "msvc_rand 2554992006 = (9617, 630322737)"
  by (simp_all add: msvc_rand_def Let_def)

lemma msvc_loop_step:
  "msvc_rand gen = (r, gen1) \<Longrightarrow>
   fst (DropoutMask_loop msvc (Fin 32767) (Fin 1) (Suc n) gen)
     = (if r < 32767 then Fin 1 else Fin 0)
         # fst (DropoutMask_loop msvc (Fin 32767) (Fin 1) n gen1)"
  by (simp add: DropoutMask_loop_Suc msvc_def del: DropoutMask_loop.simps(2))

lemma msvc_first_six:
  "fst (DropoutMask_loop msvc (Fin 32767) (Fin 1) 6 30091)
     = [Fin 0, Fin 1, Fin 1, Fin 1, Fin 1, Fin 1]"
proof -
  have six: "(6::nat) = Suc (Suc (Suc (Suc (Suc (Suc 0)))))" by simp
  show ?thesis
    unfolding six
    by (simp only: msvc_loop_step [OF msvc_draws(1)] msvc_loop_step [OF msvc_draws(2)]
        msvc_loop_step [OF msvc_draws(3)] msvc_loop_step [OF msvc_draws(4)]
        msvc_loop_step [OF msvc_draws(5)] msvc_loop_step [OF msvc_draws(6)]
        DropoutMask_loop.simps(1) fst_conv) simp
qed

text \<open>
  C6: two parts of the claim hold on the code (\<open>DropoutMask_prob_one\<close>: with drop
  probability 1 the mask is all zeros; \<open>DropoutMask_elements\<close>: every element of a
  mask is 0 or \<open>1 / (1 - prob)\<close>), but with drop probability 0 the mask is not always
  all ones. An element is kept when \<^verbatim>\<open>rand() < keepProb * RAND_MAX\<close>, and at \<open>keepProb = 1\<close>
  the draw \<^verbatim>\<open>RAND_MAX\<close> itself fails the strict comparison
  (\<open>DropoutMask_prob_zero_first\<close>). With the Microsoft C runtime, the call of
  \<^verbatim>\<open>dropout(x, 0)\<close> that finds the static seed at 30091, on a tensor \<open>x\<close> of engine shape
  \<open>[2, 3]\<close>, multiplies \<open>x\<close> by the mask \<open>[0, 1, 1, 1, 1, 1]\<close>: the first element of the
  result is dropped, where the claim says \<open>x\<close> comes back unchanged.
\<close>

theorem dropout_zero_prob_drops_element:
  "fst (dropout msvc (\<lambda>e. [2, 3]) (30091, 0) (Input 0) (Fin 0)) =
     Inr (ElementTimes (Input 0)
            (Constant \<lparr>view_shape = [2, 3],
                       view_data = [Fin 0, Fin 1, Fin 1, Fin 1, Fin 1, Fin 1]\<rparr> False))"
proof -
  have n: "unat (scast (ShapeProxy_elements [2, 3]) :: size_t) = 6"
    by (simp add: ShapeProxy_elements_def TotalSize_def)
  have m: "fst (DropoutMask msvc (30091, 0) (scast (ShapeProxy_elements [2, 3])) (Fin 0))
      = [Fin 0, Fin 1, Fin 1, Fin 1, Fin 1, Fin 1]"
    unfolding DropoutMask_mask n using msvc_first_six by (simp add: msvc_def)
  obtain mk st1 where D:
      "DropoutMask msvc (30091, 0) (scast (ShapeProxy_elements [2, 3])) (Fin 0) = (mk, st1)"
    by (cases "DropoutMask msvc (30091, 0) (scast (ShapeProxy_elements [2, 3])) (Fin 0)") auto
  have mk: "mk = [Fin 0, Fin 1, Fin 1, Fin 1, Fin 1, Fin 1]"
    using m D by simp
  have C: "InternalOps_Constant [2, 3]
        (from_vector [Fin 0, Fin 1, Fin 1, Fin 1, Fin 1, Fin 1]) False =
      Inr (Constant \<lparr>view_shape = [2, 3],
                     view_data = [Fin 0, Fin 1, Fin 1, Fin 1, Fin 1, Fin 1]\<rparr> False)"
    by (simp add: InternalOps_Constant_def from_vector_def Contains_def
        Dictionary_at_def Value_NDArrayView_def bind_def TotalSize_def)
  show ?thesis
    unfolding dropout_def Shape_of_def DropoutMask_ShapeProxy_def
    by (simp add: D mk C bind_def dropout_mask_def operator_times_def)
qed

section \<open>Facts about the operators\<close>

lemma scalar_other_makes_nodes:
  "operator_plus_ES x (of_int32 2) = Plus x (ScalarConstant (Fin 2))"
  "nodes (operator_plus_ES x (of_int32 2)) = nodes x + 2"
  "operator_times_SE (of_float (Fin (1/2))) x = ElementTimes (ScalarConstant (Fin (1/2))) x"
  "operator_div_SE (of_int32 1) x = ElementDivide (ScalarConstant (Fin 1)) x"
  by (simp_all add: operator_plus_ES_def operator_times_SE_def operator_div_SE_def
      Number_is_def float_eq_def float_of_int_def Scalar_def to_float_def operator_plus_def
      operator_times_def operator_div_def)

text \<open>
  C5: for every expression \<open>x\<close> and a scalar operand of type \<^verbatim>\<open>int\<close>, \<^verbatim>\<open>float\<close> or
  \<^verbatim>\<open>double\<close>, each of \<open>x + 0\<close>, \<open>0 + x\<close>, \<open>x * 1\<close>, \<open>1 * x\<close> and \<open>x / 1\<close> is \<open>x\<close> itself: the
  operator returns its operand and creates no node (any other scalar wraps \<open>x\<close> in a
  new node, as \<open>scalar_other_makes_nodes\<close> shows, and no expression is a proper part
  of itself).
\<close>

theorem scalar_identity_shortcuts:
  "operator_plus_ES x (of_int32 0) = x \<and> operator_plus_ES x (of_float (Fin 0)) = x
   \<and> operator_plus_ES x (of_double (Fin 0)) = x
   \<and> operator_plus_SE (of_int32 0) x = x \<and> operator_plus_SE (of_float (Fin 0)) x = x
   \<and> operator_plus_SE (of_double (Fin 0)) x = x
   \<and> operator_times_ES x (of_int32 1) = x \<and> operator_times_ES x (of_float (Fin 1)) = x
   \<and> operator_times_ES x (of_double (Fin 1)) = x
   \<and> operator_times_SE (of_int32 1) x = x \<and> operator_times_SE (of_float (Fin 1)) x = x
   \<and> operator_times_SE (of_double (Fin 1)) x = x
   \<and> operator_div_ES x (of_int32 1) = x \<and> operator_div_ES x (of_float (Fin 1)) = x
   \<and> operator_div_ES x (of_double (Fin 1)) = x"
  by (simp add: operator_plus_ES_def operator_plus_SE_def operator_times_ES_def
      operator_times_SE_def operator_div_ES_def Number_is_def float_eq_def float_of_int_def)

section \<open>Facts about the training costs\<close>


lemma bind_Inr: "bind (Inr x) f = f x"
  by (simp add: bind_def)

lemma bind_Inl: "bind (Inl e) f = Inl e"
  by (simp add: bind_def)

lemma ToCNTKAxis_from_end:
  assumes neg: "sint a < 0" and inside: "- sint a \<le> uint rank" and small: "uint rank \<le> 2 ^ 31"
  shows "ToCNTKAxis rank a = Inr (word_of_int (- sint a - 1))"
proof -
  define b :: int32 where "b = ucast ((scast a :: size_t) + rank)"
  have sb: "sint b = sint a + uint rank"
    unfolding b_def using sint_normalized [OF neg, of rank] small by simp
  have nonneg: "0 \<le> sint b" using sb inside by simp
  have ub: "uint (scast b :: size_t) = sint b"
    using nonneg by (rule uint_widen_nonneg)
  have "ToCNTKAxis rank a =
     (if sint b < 0 \<or> uint rank \<le> uint (scast b :: size_t)
      then Inl (InvalidArgument ''marian::ToCNTKAxis: axis out of range'')
      else Inr (word_of_int (uint rank - 1 - sint b)))"
    unfolding ToCNTKAxis_int b_def using neg by (simp only: if_True)
  then have "ToCNTKAxis rank a = Inr (word_of_int (uint rank - 1 - sint b))"
    using nonneg neg sb by (simp only: ub) simp
  moreover have "uint rank - 1 - sint b = - sint a - 1" using sb by simp
  ultimately show ?thesis by simp
qed

lemma uint_Rank: "length viewShape \<le> 2 ^ 31 \<Longrightarrow> uint (Rank viewShape) = int (length viewShape)"
proof -
  assume "length viewShape \<le> 2 ^ 31"
  then have "length viewShape < 2 ^ LENGTH(64)" by simp
  then have "unat (of_nat (length viewShape) :: size_t) = length viewShape"
    by (intro of_nat_inverse refl)
  then show ?thesis by (metis Rank_def uint_nat)
qed

lemma axis_of_rank:
  assumes "rank_between S x lo"
  shows "lo \<ge> 1 \<Longrightarrow> ToCNTKAxis (Rank (S x)) (- 1) = Inr 0"
    and "lo \<ge> 2 \<Longrightarrow> ToCNTKAxis (Rank (S x)) (- 2) = Inr 1"
    and "lo \<ge> 3 \<Longrightarrow> ToCNTKAxis (Rank (S x)) (- 3) = Inr 2"
proof -
  have len: "length (S x) \<le> 2 ^ 31" and lo: "lo \<le> length (S x)"
    using assms by (simp_all add: rank_between_def)
  have u: "uint (Rank (S x)) = int (length (S x))" using len by (rule uint_Rank)
  have small: "uint (Rank (S x)) \<le> 2 ^ 31" using u len by simp
  show "lo \<ge> 1 \<Longrightarrow> ToCNTKAxis (Rank (S x)) (- 1) = Inr 0"
    using ToCNTKAxis_from_end [of "- 1" "Rank (S x)"] small u lo by simp
  show "lo \<ge> 2 \<Longrightarrow> ToCNTKAxis (Rank (S x)) (- 2) = Inr 1"
    using ToCNTKAxis_from_end [of "- 2" "Rank (S x)"] small u lo by simp
  show "lo \<ge> 3 \<Longrightarrow> ToCNTKAxis (Rank (S x)) (- 3) = Inr 2"
    using ToCNTKAxis_from_end [of "- 3" "Rank (S x)"] small u lo by simp
qed

lemma sum_over_sequence:
  "rank_between S x 3 \<Longrightarrow> sum_Expr S x (- 3) = Inr (ReduceSum x sequence_axis)"
  using axis_of_rank(3) [of S x 3]
  by (simp add: sum_Expr_def Shape_of_def rank_between_def bind_def sequence_axis_def)

lemma sum_over_batch:
  "rank_between S x 2 \<Longrightarrow> sum_Expr S x (- 2) = Inr (ReduceSum x batch_axis)"
  using axis_of_rank(2) [of S x 2]
  by (simp add: sum_Expr_def Shape_of_def rank_between_def bind_def batch_axis_def)

lemma mean_over_batch:
  "rank_between S x 2 \<Longrightarrow> mean S x (- 2) = Inr (ReduceMean x batch_axis)"
  using axis_of_rank(2) [of S x 2]
  by (simp add: mean_def Shape_of_def rank_between_def bind_def batch_axis_def)

lemma mean_over_classes:
  "rank_between S x 1 \<Longrightarrow> mean S x (- 1) = Inr (ReduceMean x class_axis)"
  using axis_of_rank(1) [of S x 1]
  by (simp add: mean_def Shape_of_def rank_between_def bind_def class_axis_def)

lemma operator_times_SE_float:
  "operator_times_SE (of_float a) x = times_scalar a x"
  by (simp add: operator_times_SE_def times_scalar_def Number_is_def float_of_int_def
      operator_times_def Scalar_def to_float_def)


lemma Cost_ce_spec:
  assumes "logits \<noteq> NullVariable" and "S logits = numClasses # extents"
    and "float_less (Fin 0) smoothing \<longrightarrow> rank_between S (LogSoftmax logits class_axis) 1"
  shows "Cost_ce sub32 S logits indices msk smoothing =
     Inr (spec_per_token_ce sub32 logits indices msk smoothing numClasses)"
proof -
  have ce0: "cross_entropy S logits indices = Inr (spec_cross_entropy logits indices numClasses)"
    using assms(1,2)
    by (simp add: cross_entropy_def Shape_of_def NDShape_at_def bind_def
        spec_cross_entropy_def class_axis_def)
  show ?thesis
  proof (cases "float_less (Fin 0) smoothing")
    case True
    then have "mean S (logsoftmax logits) (- 1)
        = Inr (ReduceMean (LogSoftmax logits class_axis) class_axis)"
      using assms(3) mean_over_classes [of S "LogSoftmax logits class_axis"]
      by (simp add: logsoftmax_def class_axis_def)
    then show ?thesis using True ce0
      by (simp add: Cost_ce_def spec_per_token_ce_def bind_Inr float_of_int_def
          operator_times_SE_float operator_minus_def operator_times_def Let_def)
  next
    case False
    then show ?thesis using ce0
      by (simp add: Cost_ce_def spec_per_token_ce_def bind_Inr float_of_int_def
          operator_times_def Let_def)
  qed
qed

lemma spec_reduction_cases:
  "spec_reduction costType =
     (if costType = ''ce-mean'' \<or> costType = ''cross-entropy'' then mean_over_batch_of_sequence_sum
      else if costType = ''ce-mean-words'' then sum_over_tokens_divided_by_mask_sum
      else if costType = ''ce-sum'' then sum_over_tokens
      else if costType = ''perplexity'' then exponential_of_per_token_mean
      else if costType = ''ce-rescore'' then negative_sequence_sum
      else mean_over_batch_of_sequence_sum)"
  by (simp add: spec_reduction_def spec_reduction_table_def)

lemma ToCNTKAxis_before_start:
  assumes below: "sint a + uint rank < 0" and small: "uint rank \<le> 2 ^ 31"
  shows "ToCNTKAxis rank a = Inl (InvalidArgument ''marian::ToCNTKAxis: axis out of range'')"
proof -
  have neg: "sint a < 0" using below uint_ge_0 [of rank] by linarith
  define b :: int32 where "b = ucast ((scast a :: size_t) + rank)"
  have sb: "sint b = sint a + uint rank"
    unfolding b_def using sint_normalized [OF neg, of rank] small by simp
  have "ToCNTKAxis rank a =
     (if sint b < 0 \<or> uint rank \<le> uint (scast b :: size_t)
      then Inl (InvalidArgument ''marian::ToCNTKAxis: axis out of range'')
      else Inr (word_of_int (uint rank - 1 - sint b)))"
    unfolding ToCNTKAxis_int b_def using neg by (simp only: if_True)
  then show ?thesis using sb below by simp
qed

lemma rank2_sequence_axis:
  "x \<noteq> NullVariable \<Longrightarrow>
   sum_Expr example_rank2 x (- 3)
     = Inl (InvalidArgument ''marian::ToCNTKAxis: axis out of range'')"
proof -
  assume x: "x \<noteq> NullVariable"
  have "ToCNTKAxis 2 (- 3) = Inl (InvalidArgument ''marian::ToCNTKAxis: axis out of range'')"
    by (rule ToCNTKAxis_before_start) simp_all
  then show ?thesis using x
    by (simp add: sum_Expr_def Shape_of_def example_rank2_def Rank_def bind_def)
qed

text \<open>
  C4 (as stated in the specification, for every logits, indices and mask): the claim
  fails for tensors that lack the axes to reduce. In an engine where every expression
  has rank 2, \<^verbatim>\<open>Cost\<close> with the cost type \<open>ce-sum\<close> does not give the sum over all tokens:
  the emulated axis \<open>-3\<close> does not exist, and the range check of the axis mapping raises
  \<^verbatim>\<open>InvalidArgument\<close>.
\<close>

theorem Cost_low_rank_counterexample:
  "Cost float_sub example_rank2 (Input 0) (Input 1) (Input 2) ''ce-sum'' (Fin 0)
     = Inl (InvalidArgument ''marian::ToCNTKAxis: axis out of range'')"
proof -
  have "Cost_ce float_sub example_rank2 (Input 0) (Input 1) (Input 2) (Fin 0)
      = Inr (ElementTimes
               (Alias (CrossEntropyWithSoftmax (Input 0) (OneHotOp (Input 1) 4 True 0) 0))
               (Input 2))"
    by (simp add: Cost_ce_def cross_entropy_def Shape_of_def NDShape_at_def bind_def
        example_rank2_def float_of_int_def operator_times_def)
  then show ?thesis
    by (simp add: Cost_def bind_Inr bind_Inl rank2_sequence_axis)
qed

text \<open>
  C4 (amended): let the logits be a non-empty expression with a class axis, and let the
  per-token cross-entropy be the softmax cross-entropy against the one-hot labels,
  \<open>(1 - s) * ce - s * meanLogSoftmax\<close> when the smoothing \<open>s\<close> is positive (the mean of the
  log-softmax is taken over the class axis, which must exist), multiplied by the mask
  when a mask is supplied. If this expression has rank at least 3, and still rank at
  least 2 after the sum over the sequence axis, then \<^verbatim>\<open>Cost\<close> returns exactly the
  reduction that the table of the specification gives for the cost type: \<open>ce-mean\<close>,
  \<open>cross-entropy\<close> and every name the table does not have give the mean over the batch
  axis of the sum over the sequence axis; \<open>ce-sum\<close> the sum over all tokens;
  \<open>ce-rescore\<close> the negated sum over the sequence axis, not reduced over the batch; and,
  for a supplied mask with the same ranks, \<open>ce-mean-words\<close> the sum over all tokens
  divided by the sum of the mask and \<open>perplexity\<close> the exponential of that quotient.
\<close>

theorem Cost_reduces_by_costType:
  assumes logits: "logits \<noteq> NullVariable" "S logits = numClasses # extents"
    and smooth: "float_less (Fin 0) smoothing \<longrightarrow> rank_between S (LogSoftmax logits class_axis) 1"
    and ce: "ce = spec_per_token_ce sub32 logits indices msk smoothing numClasses"
    and ranks: "rank_between S ce 3" "rank_between S (ReduceSum ce sequence_axis) 2"
    and mask: "uses_mask_sum (spec_reduction costType) \<longrightarrow>
                 rank_between S msk 3 \<and> rank_between S (ReduceSum msk sequence_axis) 2"
  shows "Cost sub32 S logits indices msk costType smoothing =
           Inr (spec_reduce (spec_reduction costType) ce msk)"
proof -
  have first: "Cost_ce sub32 S logits indices msk smoothing = Inr ce"
    unfolding ce using logits smooth by (rule Cost_ce_spec)
  have seq: "sum_Expr S ce (- 3) = Inr (ReduceSum ce sequence_axis)"
    using ranks(1) by (rule sum_over_sequence)
  have tokens: "sum_Expr S (ReduceSum ce sequence_axis) (- 2) = Inr (spec_sum_over_tokens ce)"
    using ranks(2) by (simp add: sum_over_batch spec_sum_over_tokens_def)
  have batch_mean: "mean S (ReduceSum ce sequence_axis) (- 2)
      = Inr (ReduceMean (ReduceSum ce sequence_axis) batch_axis)"
    using ranks(2) by (rule mean_over_batch)
  have mask_sum: "bind (sum_Expr S msk (- 3)) (\<lambda>t. bind (sum_Expr S t (- 2)) f)
      = f (spec_sum_over_tokens msk)"
    if "uses_mask_sum (spec_reduction costType)" for f :: "Expr \<Rightarrow> error + Expr"
    using that mask
    by (simp add: sum_over_sequence sum_over_batch bind_Inr spec_sum_over_tokens_def)
  show ?thesis
  proof (cases "uses_mask_sum (spec_reduction costType)")
    case True
    then consider "costType = ''ce-mean-words''" | "costType = ''perplexity''"
      by (auto simp: uses_mask_sum_def spec_reduction_cases split: if_splits)
    then show ?thesis
    proof cases
      case 1
      then show ?thesis
        using mask_sum [OF True]
        by (simp add: Cost_def first seq tokens bind_Inr spec_reduction_cases spec_reduce_def
            operator_div_def)
    next
      case 2
      then show ?thesis
        using mask_sum [OF True]
        by (simp add: Cost_def first seq tokens bind_Inr spec_reduction_cases spec_reduce_def
            operator_div_def exp_Expr_def)
    qed
  next
    case False
    then have "costType \<noteq> ''ce-mean-words''" "costType \<noteq> ''perplexity''"
      by (auto simp: uses_mask_sum_def spec_reduction_cases)
    then show ?thesis
      by (simp add: Cost_def first seq tokens batch_mean bind_Inr spec_reduction_cases
          spec_reduce_def operator_neg_def)
  qed
qed

theorem Cost_reduces_by_costType_witness:
  "Input 0 \<noteq> NullVariable \<and> example_engine (Input 0) = 4 # [3, 1, 2]
   \<and> float_less (Fin 0) (Fin (1/2))
   \<and> rank_between example_engine (LogSoftmax (Input 0) class_axis) 1
   \<and> rank_between example_engine
         (spec_per_token_ce float_sub (Input 0) (Input 1) (Input 2) (Fin (1/2)) 4) 3
   \<and> rank_between example_engine
         (ReduceSum (spec_per_token_ce float_sub (Input 0) (Input 1) (Input 2) (Fin (1/2)) 4)
            sequence_axis) 2
   \<and> uses_mask_sum (spec_reduction ''ce-mean-words'')
   \<and> rank_between example_engine (Input 2) 3
   \<and> rank_between example_engine (ReduceSum (Input 2) sequence_axis) 2
   \<and> Cost float_sub example_engine (Input 0) (Input 1) (Input 2) ''ce-mean-words'' (Fin (1/2))
       = Inr (ElementDivide
                (ReduceSum (ReduceSum
                   (ElementTimes
                      (Minus
                         (ElementTimes (ScalarConstant (Fin (1/2)))
                            (Alias (CrossEntropyWithSoftmax (Input 0)
                                      (OneHotOp (Input 1) 4 True 0) 0)))
                         (ElementTimes (ScalarConstant (Fin (1/2)))
                            (ReduceMean (LogSoftmax (Input 0) 0) 0)))
                      (Input 2)) 2) 1)
                (ReduceSum (ReduceSum (Input 2) 2) 1))"
proof -
  let ?ce = "spec_per_token_ce float_sub (Input 0) (Input 1) (Input 2) (Fin (1/2)) 4"
  have ce: "?ce = ElementTimes
                      (Minus
                         (ElementTimes (ScalarConstant (Fin (1/2)))
                            (Alias (CrossEntropyWithSoftmax (Input 0)
                                      (OneHotOp (Input 1) 4 True 0) 0)))
                         (ElementTimes (ScalarConstant (Fin (1/2)))
                            (ReduceMean (LogSoftmax (Input 0) 0) 0)))
                      (Input 2)"
    by (simp add: spec_per_token_ce_def spec_cross_entropy_def times_scalar_def float_eq_def
        class_axis_def Let_def)
  have h1: "Input 0 \<noteq> NullVariable" by simp
  have h2: "example_engine (Input 0) = 4 # [3, 1, 2]" by (simp add: example_engine_def)
  have h3: "rank_between example_engine (LogSoftmax (Input 0) class_axis) 1"
    by (simp add: rank_between_def example_engine_def)
  have h4: "rank_between example_engine ?ce 3"
    unfolding ce by (simp add: rank_between_def example_engine_def)
  have h5: "rank_between example_engine (ReduceSum ?ce sequence_axis) 2"
    by (simp add: rank_between_def example_engine_def)
  have h6: "rank_between example_engine (Input 2) 3"
    "rank_between example_engine (ReduceSum (Input 2) sequence_axis) 2"
    by (simp_all add: rank_between_def example_engine_def)
  have h7: "uses_mask_sum (spec_reduction ''ce-mean-words'')"
    by (simp add: uses_mask_sum_def spec_reduction_cases)
  have "Cost float_sub example_engine (Input 0) (Input 1) (Input 2) ''ce-mean-words'' (Fin (1/2))
      = Inr (spec_reduce (spec_reduction ''ce-mean-words'') ?ce (Input 2))"
    using Cost_reduces_by_costType
      [of "Input 0" example_engine 4 "[3, 1, 2]" "Fin (1/2)" ?ce float_sub "Input 1" "Input 2"
         "''ce-mean-words''"]
      h1 h2 h3 h4 h5 h6 by simp
  then have "Cost float_sub example_engine (Input 0) (Input 1) (Input 2) ''ce-mean-words''
        (Fin (1/2))
      = Inr (ElementDivide (ReduceSum (ReduceSum ?ce 2) 1)
                (ReduceSum (ReduceSum (Input 2) 2) 1))"
    by (simp add: spec_reduction_cases spec_reduce_def spec_sum_over_tokens_def
        sequence_axis_def batch_axis_def)
  then show ?thesis
    using h1 h2 h3 h4 h5 h6 h7 unfolding ce by simp
qed














end
